theory Spec2Isabelle
  imports Main "HOL-Library.Sublist"
begin

section \<open>JavaScript values and strings\<close>

text \<open>
  The page is written in JavaScript, so the model starts with the values the code
  handles. A \<^typ>\<open>string\<close> stands for a JavaScript string whose code units are all
  below 256 (a \<^typ>\<open>char\<close> is one such code unit); on that range \<open>toLowerCase\<close> and
  \<open>trim\<close> are exactly the functions below.

  An exception is a value: \<open>Error\<close> carries the message given to \<open>new Error(...)\<close>,
  \<open>TypeError\<close> the message of an error raised by the language itself (its wording is
  the engine's; nothing proved here depends on it).
\<close>

datatype exn = Error string | TypeError string

fun message :: "exn \<Rightarrow> string" where
  "message (Error m) = m"
| "message (TypeError m) = m"

text \<open>
  A value as \<open>JSON.parse\<close> produces it, plus \<open>undefined\<close>. A number is held as the
  text \<open>String(n)\<close> gives for it: the code only tests numbers for truthiness and
  converts them to strings. An object is the list of its own properties, each name once.
\<close>

datatype jsval =
    JUndefined
  | JNull
  | JBool bool
  | JNum string
  | JStr string
  | JArr "jsval list"
  | JObj "(string \<times> jsval) list"

text \<open>\<open>Boolean(v)\<close>: the falsy values are \<open>undefined\<close>, \<open>null\<close>, \<open>false\<close>, \<open>0\<close>, \<open>NaN\<close> and \<open>''\<close>.\<close>

fun truthy :: "jsval \<Rightarrow> bool" where
  "truthy JUndefined = False"
| "truthy JNull = False"
| "truthy (JBool b) = b"
| "truthy (JNum n) = (n \<noteq> ''0'' \<and> n \<noteq> ''NaN'')"
| "truthy (JStr s) = (s \<noteq> [])"
| "truthy (JArr xs) = True"
| "truthy (JObj kvs) = True"

text \<open>\<open>a || b\<close>\<close>

definition js_or :: "jsval \<Rightarrow> jsval \<Rightarrow> jsval" where
  "js_or a b = (if truthy a then a else b)"

text \<open>
  \<open>v?.k\<close>: the own property \<open>k\<close> of an object, \<open>undefined\<close> for every other value
  (none of the names the page reads is a property of a string, number, boolean or array,
  or inherited from \<open>Object.prototype\<close>).
\<close>

fun getProp :: "jsval \<Rightarrow> string \<Rightarrow> jsval" where
  "getProp (JObj kvs) k = (case map_of kvs k of Some v \<Rightarrow> v | None \<Rightarrow> JUndefined)"
| "getProp v k = JUndefined"

text \<open>\<open>typeof v === 'object'\<close>\<close>

fun typeof_object :: "jsval \<Rightarrow> bool" where
  "typeof_object JNull = True"
| "typeof_object (JArr xs) = True"
| "typeof_object (JObj kvs) = True"
| "typeof_object v = False"

text \<open>
  \<open>String(v)\<close>. An array is the join of its elements with \<open>,\<close>, where \<open>null\<close> and
  \<open>undefined\<close> elements give the empty string. A plain object goes through its
  \<open>toString\<close> method: \<open>Object.prototype.toString\<close> gives \<open>[object Object]\<close>, but an own
  property named \<open>toString\<close> (never callable in parsed JSON) hides it; \<open>valueOf\<close> then
  gives no primitive value either (the inherited one returns the object itself, an own
  one is not callable), and the conversion throws a \<open>TypeError\<close>.
\<close>

fun js_String :: "jsval \<Rightarrow> exn + string"
  and join_elems :: "string \<Rightarrow> jsval list \<Rightarrow> exn + string"
where
  "js_String JUndefined = Inr ''undefined''"
| "js_String JNull = Inr ''null''"
| "js_String (JBool b) = Inr (if b then ''true'' else ''false'')"
| "js_String (JNum n) = Inr n"
| "js_String (JStr s) = Inr s"
| "js_String (JArr xs) = join_elems '','' xs"
| "js_String (JObj kvs) =
     (if map_of kvs ''toString'' = None then Inr ''[object Object]''
      else Inl (TypeError ''Cannot convert object to primitive value''))"
| "join_elems sep [] = Inr []"
| "join_elems sep (x # xs) =
     (case (if x = JUndefined \<or> x = JNull then Inr [] else js_String x) of
        Inl e \<Rightarrow> Inl e
      | Inr a \<Rightarrow>
          (if xs = [] then Inr a
           else case join_elems sep xs of
                  Inl e \<Rightarrow> Inl e
                | Inr b \<Rightarrow> Inr (a @ sep @ b)))"

text \<open>
  \<open>s.toLowerCase()\<close> on code units below 256: the capitals are A-Z (65-90) and the
  Latin-1 capitals (192-222 without the multiplication sign 215); the small letter is 32
  further, which on these ranges is the same code with the bit of value 32 set.
\<close>

definition lower_char :: "char \<Rightarrow> char" where
  "lower_char c =
     (let n = (of_char c :: nat)
      in if (65 \<le> n \<and> n \<le> 90) \<or> (192 \<le> n \<and> n \<le> 222 \<and> n \<noteq> 215)
         then Char (digit0 c) (digit1 c) (digit2 c) (digit3 c) (digit4 c) True (digit6 c) (digit7 c)
         else c)"

definition toLowerCase :: "string \<Rightarrow> string" where
  "toLowerCase s = map lower_char s"

text \<open>
  \<open>s.trim()\<close>: white space and line terminators below 256 are tab, line feed, vertical
  tab, form feed, carriage return, space and the no-break space.
\<close>

definition is_space :: "char \<Rightarrow> bool" where
  "is_space c = ((of_char c :: nat) \<in> {9, 10, 11, 12, 13, 32, 160})"

definition trim :: "string \<Rightarrow> string" where
  "trim s = rev (dropWhile is_space (rev (dropWhile is_space s)))"

text \<open>\<open>s.includes(t)\<close> and \<open>s.endsWith(t)\<close>\<close>

fun js_includes :: "string \<Rightarrow> string \<Rightarrow> bool" where
  "js_includes [] t = (t = [])"
| "js_includes (c # cs) t = (prefix t (c # cs) \<or> js_includes cs t)"

definition endsWith :: "string \<Rightarrow> string \<Rightarrow> bool" where
  "endsWith s t = suffix t s"

section \<open>Role normalisation\<close>

text \<open>
  \<^verbatim>\<open>function normalizeRole(role) {
    return String(role || '').toLowerCase() === 'ngo' ? 'ngo' : 'volunteer';
  }\<close>
\<close>

definition normalizeRole :: "jsval \<Rightarrow> exn + string" where
  "normalizeRole role =
     (case js_String (js_or role (JStr [])) of
        Inl e \<Rightarrow> Inl e
      | Inr s \<Rightarrow> Inr (if toLowerCase s = ''ngo'' then ''ngo'' else ''volunteer''))"

text \<open>\<^verbatim>\<open>const roleLabel = useMemo(() => (form.role === 'ngo' ? 'NGO' : 'Volunteer'), [form.role]);\<close>\<close>

definition roleLabel :: "string \<Rightarrow> string" where
  "roleLabel role = (if role = ''ngo'' then ''NGO'' else ''Volunteer'')"

section \<open>The form buffer\<close>

text \<open>
  The buffer is the object held in the \<open>form\<close> state variable. \<open>role\<close> is always a string
  (it comes from \<open>defaultForm\<close> or from \<open>normalizeRole\<close>, and no input is bound to it), and so
  is \<open>skills\<close> (from \<open>defaultForm\<close>, from \<open>join\<close>, or from the text area). Every other
  field holds whatever \<open>mapUserToForm\<close> or an input put there.
\<close>

record form =
  role :: string
  fullName :: jsval
  email :: jsval
  phone :: jsval
  bio :: jsval
  skills :: string
  address :: jsval
  dateOfBirth :: jsval
  profileImageUrl :: jsval
  volunteerDocumentUrl :: jsval
  organizationName :: jsval
  registrationNumber :: jsval
  organizationAddress :: jsval
  organizationWebsite :: jsval
  contactPerson :: jsval
  organizationDescription :: jsval
  ngoProofDocumentUrl :: jsval

definition defaultForm :: form where
  "defaultForm = \<lparr>
     role = ''volunteer'',
     fullName = JStr [],
     email = JStr [],
     phone = JStr [],
     bio = JStr [],
     skills = [],
     address = JStr [],
     dateOfBirth = JStr [],
     profileImageUrl = JStr [],
     volunteerDocumentUrl = JStr [],
     organizationName = JStr [],
     registrationNumber = JStr [],
     organizationAddress = JStr [],
     organizationWebsite = JStr [],
     contactPerson = JStr [],
     organizationDescription = JStr [],
     ngoProofDocumentUrl = JStr [] \<rparr>"

text \<open>
  \<open>mapUserToForm(user)\<close>. \<open>a || b || ''\<close> associates to the left. The two places that
  convert a value to a string can throw: \<open>normalizeRole\<close> and \<open>user.skills.join(', ')\<close>.
\<close>

definition mapUserToForm :: "jsval \<Rightarrow> exn + form" where
  "mapUserToForm user =
     (case normalizeRole (getProp user ''role'') of
        Inl e \<Rightarrow> Inl e
      | Inr r \<Rightarrow>
     (case (case getProp user ''skills'' of
              JArr xs \<Rightarrow> join_elems '', '' xs
            | _ \<Rightarrow> Inr [])
      of
        Inl e \<Rightarrow> Inl e
      | Inr sk \<Rightarrow> Inr \<lparr>
          role = r,
          fullName = js_or (js_or (getProp user ''fullName'') (getProp user ''name'')) (JStr []),
          email = js_or (getProp user ''email'') (JStr []),
          phone = js_or (getProp user ''phone'') (JStr []),
          bio = js_or (getProp user ''bio'') (JStr []),
          skills = sk,
          address = js_or (getProp user ''address'') (JStr []),
          dateOfBirth = js_or (js_or (getProp user ''dateOfBirth'') (getProp user ''dob'')) (JStr []),
          profileImageUrl =
            js_or (js_or (getProp user ''profileImageUrl'') (getProp user ''avatarUrl'')) (JStr []),
          volunteerDocumentUrl =
            js_or (js_or (js_or (getProp user ''volunteerDocumentUrl'') (getProp user ''documentUrl''))
                         (getProp user ''resumeUrl'')) (JStr []),
          organizationName =
            js_or (js_or (getProp user ''organizationName'')
                         (getProp (getProp user ''organization'') ''name'')) (JStr []),
          registrationNumber =
            js_or (js_or (getProp user ''registrationNumber'')
                         (getProp (getProp user ''organization'') ''registrationNumber'')) (JStr []),
          organizationAddress =
            js_or (js_or (getProp user ''organizationAddress'')
                         (getProp (getProp user ''organization'') ''address'')) (JStr []),
          organizationWebsite =
            js_or (js_or (getProp user ''organizationWebsite'')
                         (getProp (getProp user ''organization'') ''website'')) (JStr []),
          contactPerson =
            js_or (js_or (getProp user ''contactPerson'')
                         (getProp (getProp user ''organization'') ''contactPerson'')) (JStr []),
          organizationDescription =
            js_or (js_or (getProp user ''organizationDescription'')
                         (getProp (getProp user ''organization'') ''description'')) (JStr []),
          ngoProofDocumentUrl =
            js_or (js_or (getProp user ''ngoProofDocumentUrl'')
                         (getProp (getProp user ''organization'') ''proofDocumentUrl'')) (JStr []) \<rparr>))"

section \<open>Serialising the buffer\<close>

text \<open>\<open>s.split(',')\<close>: the pieces between the separators; the empty string gives one empty piece.\<close>

fun js_split :: "char \<Rightarrow> string \<Rightarrow> string list" where
  "js_split sep [] = [[]]"
| "js_split sep (c # cs) =
     (if c = sep then [] # js_split sep cs
      else (case js_split sep cs of
              p # ps \<Rightarrow> (c # p) # ps
            | [] \<Rightarrow> [[c]]))"

text \<open>
  \<open>JSON.stringify\<close> of an array of strings: each string in double quotes, with the quote,
  the backslash and the control characters escaped, separated by commas, in brackets.
\<close>

definition hex_digit :: "nat \<Rightarrow> char" where
  "hex_digit n = ''0123456789abcdef'' ! n"

definition json_escape :: "char \<Rightarrow> string" where
  "json_escape c =
     (let n = (of_char c :: nat)
      in if n = 34 then [CHR 0x5C, CHR 0x22]
         else if n = 92 then [CHR 0x5C, CHR 0x5C]
         else if n = 8 then [CHR 0x5C, CHR ''b'']
         else if n = 12 then [CHR 0x5C, CHR ''f'']
         else if n = 10 then [CHR 0x5C, CHR ''n'']
         else if n = 13 then [CHR 0x5C, CHR ''r'']
         else if n = 9 then [CHR 0x5C, CHR ''t'']
         else if n < 32 then [CHR 0x5C, CHR ''u'', CHR ''0'', CHR ''0'',
                              hex_digit (n div 16), hex_digit (n mod 16)]
         else [c])"

definition json_quote :: "string \<Rightarrow> string" where
  "json_quote s = [CHR 0x22] @ concat (map json_escape s) @ [CHR 0x22]"

fun join_commas :: "string list \<Rightarrow> string" where
  "join_commas [] = []"
| "join_commas [x] = x"
| "join_commas (x # y # ys) = x @ '','' @ join_commas (y # ys)"

definition JSON_stringify :: "string list \<Rightarrow> string" where
  "JSON_stringify xs = ''['' @ join_commas (map json_quote xs) @ '']''"

text \<open>A \<open>File\<close> chosen in a file input: its name, its MIME type and its size.\<close>

record js_file =
  file_name :: string
  file_type :: string
  file_size :: nat

text \<open>
  A \<open>FormData\<close> is the list of its entries in the order of the \<open>append\<close> calls. An entry
  is a string, or a file.
\<close>

datatype entry = Text string | Blob js_file

type_synonym payload = "(string \<times> entry) list"

text \<open>
  \<open>v.trim()\<close> on a buffer field: the trimmed string, or a \<open>TypeError\<close> when the field does
  not hold a string (no other value has a callable \<open>trim\<close>).
\<close>

fun dot_trim :: "jsval \<Rightarrow> exn + entry" where
  "dot_trim (JStr s) = Inr (Text (trim s))"
| "dot_trim v = Inl (TypeError ''trim is not a function'')"

text \<open>\<open>append(name, v)\<close> converts a value that is not a file with \<open>String\<close>.\<close>

definition to_text :: "jsval \<Rightarrow> exn + entry" where
  "to_text v = (case js_String v of Inl e \<Rightarrow> Inl e | Inr s \<Rightarrow> Inr (Text s))"

text \<open>
  A run of \<open>payload.append(name, expression)\<close> statements: the entries in order, or the
  first exception an expression throws.
\<close>

fun appends :: "(string \<times> (exn + entry)) list \<Rightarrow> exn + payload" where
  "appends [] = Inr []"
| "appends ((k, c) # rest) =
     (case c of
        Inl e \<Rightarrow> Inl e
      | Inr v \<Rightarrow> (case appends rest of Inl e \<Rightarrow> Inl e | Inr p \<Rightarrow> Inr ((k, v) # p)))"

text \<open>
  \<open>buildFormData(form, volunteerDocumentFile, ngoProofFile, removeVolunteerDocument,
  removeNgoProofDocument)\<close>, statement by statement.
\<close>

definition buildFormData ::
  "form \<Rightarrow> js_file option \<Rightarrow> js_file option \<Rightarrow> bool \<Rightarrow> bool \<Rightarrow> exn + payload" where
  "buildFormData f vfile nfile rv rn = appends (
     [ (''role'', Inr (Text (role f))),
       (''fullName'', dot_trim (fullName f)),
       (''email'', dot_trim (email f)),
       (''phone'', dot_trim (phone f)),
       (''bio'', dot_trim (bio f)),
       (''address'', dot_trim (address f)),
       (''dateOfBirth'', to_text (dateOfBirth f)),
       (''profileImageUrl'', dot_trim (profileImageUrl f)) ]
     @ (if role f = ''volunteer'' then
          [ (''skills'',
             Inr (Text (JSON_stringify
               (filter (\<lambda>v. v \<noteq> []) (map trim (js_split (CHR '','') (skills f))))))) ]
          @ (case vfile of Some file \<Rightarrow> [(''file'', Inr (Blob file))] | None \<Rightarrow> [])
          @ (if rv then [(''removeDocument'', Inr (Text ''true''))] else [])
        else [])
     @ (if role f = ''ngo'' then
          [ (''organizationName'', dot_trim (organizationName f)),
            (''registrationNumber'', dot_trim (registrationNumber f)),
            (''organizationAddress'', dot_trim (organizationAddress f)),
            (''organizationWebsite'', dot_trim (organizationWebsite f)),
            (''contactPerson'', dot_trim (contactPerson f)),
            (''organizationDescription'', dot_trim (organizationDescription f)) ]
          @ (case nfile of Some file \<Rightarrow> [(''ngoProofFile'', Inr (Blob file))] | None \<Rightarrow> [])
          @ (if rn then [(''removeNgoProofDocument'', Inr (Text ''true''))] else [])
        else []))"

section \<open>The page state\<close>

text \<open>The state variables of \<open>ProfileEditPage\<close>, one field for each \<open>useState\<close>.\<close>

record state =
  form :: form
  loading :: bool
  saving :: bool
  uploadProgress :: nat
  error :: string
  success :: string
  toast :: string
  volunteerDocumentFile :: "js_file option"
  ngoProofFile :: "js_file option"
  removeVolunteerDocument :: bool
  removeNgoProofDocument :: bool

definition initial_state :: state where
  "initial_state = \<lparr>
     form = defaultForm,
     loading = True,
     saving = False,
     uploadProgress = 0,
     error = [],
     success = [],
     toast = [],
     volunteerDocumentFile = None,
     ngoProofFile = None,
     removeVolunteerDocument = False,
     removeNgoProofDocument = False \<rparr>"

subsection \<open>Editing a field\<close>

text \<open>
  \<open>handleChange\<close> stores the input's value under the input's name. The names are those of
  the inputs the page renders with \<open>onChange={handleChange}\<close>.
\<close>

datatype input_name =
    In_fullName | In_email | In_phone | In_bio | In_address | In_dateOfBirth | In_skills
  | In_organizationName | In_registrationNumber | In_organizationAddress
  | In_organizationWebsite | In_contactPerson | In_organizationDescription

fun set_field :: "input_name \<Rightarrow> string \<Rightarrow> form \<Rightarrow> form" where
  "set_field In_fullName v f = f\<lparr>fullName := JStr v\<rparr>"
| "set_field In_email v f = f\<lparr>email := JStr v\<rparr>"
| "set_field In_phone v f = f\<lparr>phone := JStr v\<rparr>"
| "set_field In_bio v f = f\<lparr>bio := JStr v\<rparr>"
| "set_field In_address v f = f\<lparr>address := JStr v\<rparr>"
| "set_field In_dateOfBirth v f = f\<lparr>dateOfBirth := JStr v\<rparr>"
| "set_field In_skills v f = f\<lparr>skills := v\<rparr>"
| "set_field In_organizationName v f = f\<lparr>organizationName := JStr v\<rparr>"
| "set_field In_registrationNumber v f = f\<lparr>registrationNumber := JStr v\<rparr>"
| "set_field In_organizationAddress v f = f\<lparr>organizationAddress := JStr v\<rparr>"
| "set_field In_organizationWebsite v f = f\<lparr>organizationWebsite := JStr v\<rparr>"
| "set_field In_contactPerson v f = f\<lparr>contactPerson := JStr v\<rparr>"
| "set_field In_organizationDescription v f = f\<lparr>organizationDescription := JStr v\<rparr>"

definition handleChange :: "input_name \<Rightarrow> string \<Rightarrow> state \<Rightarrow> state" where
  "handleChange n v s = s\<lparr>form := set_field n v (form s)\<rparr>"

subsection \<open>Attaching and removing a document\<close>

text \<open>
  \<^verbatim>\<open>function isAllowedDocument(file) {
    const allowedMimeTypes = ['application/pdf', 'application/msword',
      'application/vnd.openxmlformats-officedocument.wordprocessingml.document'];
    const lowerName = file.name.toLowerCase();
    return allowedMimeTypes.includes(file.type) || lowerName.endsWith('.pdf')
      || lowerName.endsWith('.doc') || lowerName.endsWith('.docx');
  }\<close>
\<close>

definition allowedMimeTypes :: "string list" where
  "allowedMimeTypes =
     [''application/pdf'', ''application/msword'',
      ''application/vnd.openxmlformats-officedocument.wordprocessingml.document'']"

definition isAllowedDocument :: "js_file \<Rightarrow> bool" where
  "isAllowedDocument file =
     (let lowerName = toLowerCase (file_name file)
      in file_type file \<in> set allowedMimeTypes \<or> endsWith lowerName ''.pdf''
         \<or> endsWith lowerName ''.doc'' \<or> endsWith lowerName ''.docx'')"

text \<open>
  The file input that raised the event: its list of files (\<open>event.target.files\<close>, which
  the code allows to be absent) and its \<open>value\<close>, which the handler can clear.
\<close>

record file_input =
  input_files :: "js_file list option"
  input_value :: string

text \<open>\<open>event.target.files?.[0] || null\<close>\<close>

definition first_file :: "file_input \<Rightarrow> js_file option" where
  "first_file inp =
     (case input_files inp of
        None \<Rightarrow> None
      | Some [] \<Rightarrow> None
      | Some (file # rest) \<Rightarrow> Some file)"

definition handleVolunteerFileChange :: "file_input \<Rightarrow> state \<Rightarrow> state \<times> file_input" where
  "handleVolunteerFileChange inp s =
     (case first_file inp of
        None \<Rightarrow> (s, inp)
      | Some file \<Rightarrow>
          if \<not> isAllowedDocument file
          then (s\<lparr>error := ''Please upload a PDF or DOC file only.''\<rparr>, inp\<lparr>input_value := []\<rparr>)
          else (s\<lparr>error := [], volunteerDocumentFile := Some file,
                  removeVolunteerDocument := False\<rparr>, inp))"

definition handleNgoProofChange :: "file_input \<Rightarrow> state \<Rightarrow> state \<times> file_input" where
  "handleNgoProofChange inp s =
     (case first_file inp of
        None \<Rightarrow> (s, inp)
      | Some file \<Rightarrow>
          if \<not> isAllowedDocument file
          then (s\<lparr>error := ''Please upload a PDF or DOC file only.''\<rparr>, inp\<lparr>input_value := []\<rparr>)
          else (s\<lparr>error := [], ngoProofFile := Some file,
                  removeNgoProofDocument := False\<rparr>, inp))"

definition handleRemoveVolunteerFile :: "state \<Rightarrow> state" where
  "handleRemoveVolunteerFile s =
     s\<lparr>volunteerDocumentFile := None,
       form := (form s)\<lparr>volunteerDocumentUrl := JStr []\<rparr>,
       removeVolunteerDocument := True\<rparr>"

definition handleRemoveNgoProofFile :: "state \<Rightarrow> state" where
  "handleRemoveNgoProofFile s =
     s\<lparr>ngoProofFile := None,
       form := (form s)\<lparr>ngoProofDocumentUrl := JStr []\<rparr>,
       removeNgoProofDocument := True\<rparr>"

subsection \<open>Responses\<close>

text \<open>
  What \<open>fetch\<close> gives: a rejection, or a response with its \<open>ok\<close> flag, its
  \<open>content-type\<close> header (absent or a string) and the outcome of \<open>response.json()\<close>
  (\<open>None\<close> when it rejects).
\<close>

record fetch_response =
  resp_ok :: bool
  resp_contentType :: "string option"
  resp_json :: "jsval option"

datatype fetch_outcome = FetchRejected exn | FetchResponse fetch_response

text \<open>\<open>response.headers.get('content-type') || ''\<close>\<close>

definition header_or_empty :: "string option \<Rightarrow> string" where
  "header_or_empty h = (case h of None \<Rightarrow> [] | Some c \<Rightarrow> c)"

definition isJsonResponse :: "fetch_response \<Rightarrow> bool" where
  "isJsonResponse response =
     js_includes (toLowerCase (header_or_empty (resp_contentType response))) ''application/json''"

definition isHtmlResponse :: "fetch_response \<Rightarrow> bool" where
  "isHtmlResponse response =
     js_includes (toLowerCase (header_or_empty (resp_contentType response))) ''text/html''"

definition readResponseJson :: "fetch_response \<Rightarrow> jsval" where
  "readResponseJson response =
     (if \<not> isJsonResponse response then JNull
      else (case resp_json response of None \<Rightarrow> JNull | Some v \<Rightarrow> v))"

text \<open>
  What the \<open>XMLHttpRequest\<close> of a save gives: \<open>onerror\<close>, or \<open>onload\<close> with the status,
  the response text, the \<open>content-type\<close> header, and the outcome of \<open>JSON.parse\<close> on the
  text (\<open>None\<close> when it throws).
\<close>

record xhr_response =
  xhr_status :: nat
  xhr_responseText :: string
  xhr_contentType :: "string option"
  xhr_parsed :: "jsval option"

datatype xhr_outcome = XhrError | XhrLoad xhr_response

text \<open>\<open>ok: request.status >= 200 && request.status < 300\<close>\<close>

definition xhr_ok :: "xhr_response \<Rightarrow> bool" where
  "xhr_ok r = (200 \<le> xhr_status r \<and> xhr_status r < 300)"

text \<open>
  \<^verbatim>\<open>try { body = response.text ? JSON.parse(response.text) : null; } catch { body = null; }\<close>
\<close>

definition parse_text :: "xhr_response \<Rightarrow> jsval" where
  "parse_text r =
     (if xhr_responseText r = [] then JNull
      else (case xhr_parsed r of None \<Rightarrow> JNull | Some v \<Rightarrow> v))"

subsection \<open>Loading the profile\<close>

text \<open>
  \<open>loadCurrentProfile\<close>, run once when the page mounts; \<open>mounted\<close> is the flag the effect's
  clean-up clears.
\<close>

definition load_try :: "bool \<Rightarrow> fetch_outcome \<Rightarrow> state \<Rightarrow> exn + state" where
  "load_try mounted outcome s =
     (case outcome of
        FetchRejected e \<Rightarrow> Inl e
      | FetchResponse response \<Rightarrow>
          if \<not> resp_ok response then
            (if isHtmlResponse response
             then Inl (Error ''API not reachable. Set VITE_API_BASE_URL to your backend URL.'')
             else Inl (Error ''Unable to fetch profile details.''))
          else
            (let user = readResponseJson response
             in if \<not> truthy user \<or> \<not> typeof_object user
                then Inl (Error ''Invalid profile data from server.'')
                else if mounted then
                  (case mapUserToForm user of
                     Inl e \<Rightarrow> Inl e
                   | Inr f \<Rightarrow> Inr (s\<lparr>form := f,
                                      volunteerDocumentFile := None,
                                      ngoProofFile := None,
                                      removeVolunteerDocument := False,
                                      removeNgoProofDocument := False\<rparr>))
                else Inr s))"

definition loadCurrentProfile :: "bool \<Rightarrow> fetch_outcome \<Rightarrow> state \<Rightarrow> state" where
  "loadCurrentProfile mounted outcome s =
     (let s0 = s\<lparr>loading := True, error := []\<rparr>;
          s1 = (case load_try mounted outcome s0 of
                  Inl e \<Rightarrow> (if mounted then s0\<lparr>error := message e\<rparr> else s0)
                | Inr s' \<Rightarrow> s')
      in if mounted then s1\<lparr>loading := False\<rparr> else s1)"

subsection \<open>Submitting\<close>

text \<open>
  What the outside world does during one submission: the percentages of the upload
  progress events that carried a computable length, the outcome of the save request, and
  the outcome of the follow-up read.
\<close>

record submit_env =
  env_progress :: "nat list"
  env_save :: xhr_outcome
  env_refetch :: fetch_outcome

text \<open>The statements of \<open>handleSubmit\<close> before the \<open>try\<close>.\<close>

definition submit_start :: "state \<Rightarrow> state" where
  "submit_start s = s\<lparr>error := [], success := [], saving := True, uploadProgress := 0\<rparr>"

text \<open>The payload a submission in state \<open>s\<close> sends.\<close>

definition submit_payload :: "state \<Rightarrow> exn + payload" where
  "submit_payload s =
     buildFormData (form s) (volunteerDocumentFile s) (ngoProofFile s)
       (removeVolunteerDocument s) (removeNgoProofDocument s)"

text \<open>
  \<open>handleSubmit\<close> is an \<open>async\<close> function: it runs in three stretches, separated by the
  \<open>await\<close> of the save request and the \<open>await\<close> of the follow-up read (no state is written
  between the \<open>await\<close> of the \<open>fetch\<close> and the \<open>await\<close> of \<open>readResponseJson\<close>, so the two
  waits count as one, which ends when the response and its body are there). Between the
  stretches the page is live: only the submit button is disabled while \<open>saving\<close> is set, so
  edits, file selections and removals can run. \<open>submission\<close> says where a submission
  stands.
\<close>

datatype submission = NoSubmission | AwaitingSave | AwaitingRefetch

text \<open>The \<open>catch\<close> (when something was thrown) and the \<open>finally\<close> of \<open>handleSubmit\<close>.\<close>

definition submit_end :: "exn option \<Rightarrow> state \<Rightarrow> state" where
  "submit_end thrown s =
     (case thrown of Some e \<Rightarrow> s\<lparr>error := message e\<rparr> | None \<Rightarrow> s)
       \<lparr>saving := False, uploadProgress := 0\<rparr>"

text \<open>
  The first stretch: the opening statements, then the promise's executor, which builds the
  payload and sends the request. When building the payload throws, the promise rejects and
  the \<open>catch\<close> and \<open>finally\<close> run at once.
\<close>

definition handleSubmit_begin :: "state \<Rightarrow> state \<times> submission" where
  "handleSubmit_begin s =
     (case submit_payload s of
        Inl e \<Rightarrow> (submit_end (Some e) (submit_start s), NoSubmission)
      | Inr formData \<Rightarrow> (submit_start s, AwaitingSave))"

text \<open>
  \<open>request.upload.onprogress\<close> for an event with a computable length; \<open>percent\<close> is
  \<^verbatim>\<open>Math.round((progressEvent.loaded / progressEvent.total) * 100)\<close>.
\<close>

definition onprogress :: "nat \<Rightarrow> state \<Rightarrow> state" where
  "onprogress percent s = s\<lparr>uploadProgress := percent\<rparr>"

text \<open>
  \<^verbatim>\<open>const serverMessage =
    body && typeof body === 'object' && typeof body.message === 'string' ? body.message : null;\<close>
\<close>

definition serverMessage :: "jsval \<Rightarrow> string option" where
  "serverMessage body =
     (if truthy body \<and> typeof_object body
      then (case getProp body ''message'' of JStr m \<Rightarrow> Some m | _ \<Rightarrow> None)
      else None)"

text \<open>The branch \<open>if (!response.ok) { ... }\<close>: it always throws.\<close>

definition save_failure :: "xhr_response \<Rightarrow> exn" where
  "save_failure response =
     (if js_includes (toLowerCase (header_or_empty (xhr_contentType response))) ''text/html''
      then Error ''API not reachable. Set VITE_API_BASE_URL to your backend URL.''
      else (case serverMessage (parse_text response) of
              Some m \<Rightarrow> (if m \<noteq> [] then Error m
                         else Error ''Profile update failed. Please try again.'')
            | None \<Rightarrow> Error ''Profile update failed. Please try again.''))"

text \<open>
  The follow-up read, inside its own \<open>try { ... } catch { }\<close>: whatever goes wrong, the
  state is left as it is.
\<close>

definition refetch :: "fetch_outcome \<Rightarrow> state \<Rightarrow> state" where
  "refetch outcome s =
     (case outcome of
        FetchRejected e \<Rightarrow> s
      | FetchResponse latestProfileResponse \<Rightarrow>
          if resp_ok latestProfileResponse then
            (let latestUser = readResponseJson latestProfileResponse
             in if truthy latestUser \<and> typeof_object latestUser
                then (case mapUserToForm latestUser of
                        Inl e \<Rightarrow> s
                      | Inr f \<Rightarrow> s\<lparr>form := f\<rparr>)
                else s)
          else s)"

text \<open>
  The buffer update from the save response:
  \<^verbatim>\<open>if (updatedUser && typeof updatedUser === 'object') { setForm(mapUserToForm(updatedUser)); }\<close>
\<close>

definition apply_updated :: "jsval \<Rightarrow> state \<Rightarrow> exn + state" where
  "apply_updated updatedUser s =
     (if truthy updatedUser \<and> typeof_object updatedUser
      then (case mapUserToForm updatedUser of
              Inl e \<Rightarrow> Inl e
            | Inr f \<Rightarrow> Inr (s\<lparr>form := f\<rparr>))
      else Inr s)"

text \<open>
  The second stretch, when the request has settled: \<open>onerror\<close> rejects the promise;
  \<open>onload\<close> resolves it, and the code throws on a status that is not a success, replaces
  the buffer by the response if that is an object, and starts the follow-up read.
\<close>

definition handleSubmit_loaded :: "xhr_outcome \<Rightarrow> state \<Rightarrow> state \<times> submission" where
  "handleSubmit_loaded outcome s =
     (case outcome of
        XhrError \<Rightarrow>
          (submit_end (Some (Error ''Network error while updating profile.'')) s, NoSubmission)
      | XhrLoad response \<Rightarrow>
          if \<not> xhr_ok response then (submit_end (Some (save_failure response)) s, NoSubmission)
          else
            (case apply_updated (parse_text response) s of
               Inl e \<Rightarrow> (submit_end (Some e) s, NoSubmission)
             | Inr s2 \<Rightarrow> (s2, AwaitingRefetch)))"

text \<open>
  The third stretch, when the follow-up read has settled: the read's own \<open>try\<close>, the
  clearing of the files and flags, the success message and the toast, and the \<open>finally\<close>.
\<close>

definition handleSubmit_refetched :: "fetch_outcome \<Rightarrow> state \<Rightarrow> state" where
  "handleSubmit_refetched outcome s =
     submit_end None
       ((refetch outcome s)
          \<lparr>volunteerDocumentFile := None,
           ngoProofFile := None,
           removeVolunteerDocument := False,
           removeNgoProofDocument := False,
           success := ''Your profile has been updated successfully.'',
           toast := ''Profile updated successfully.''\<rparr>)"

text \<open>
  A whole submission during which no other handler runs: the three stretches in a row,
  with the progress events of the upload between the first and the second.
\<close>

definition handleSubmit :: "submit_env \<Rightarrow> state \<Rightarrow> state" where
  "handleSubmit env s =
     (case handleSubmit_begin s of
        (s1, AwaitingSave) \<Rightarrow>
          (case handleSubmit_loaded (env_save env) (fold onprogress (env_progress env) s1) of
             (s2, AwaitingRefetch) \<Rightarrow> handleSubmit_refetched (env_refetch env) s2
           | (s2, settled) \<Rightarrow> s2)
      | (s1, settled) \<Rightarrow> s1)"

subsection \<open>What the page lets the user do\<close>

text \<open>
  The form is rendered once loading is over. The volunteer document section is rendered
  for \<open>form.role === 'volunteer'\<close>, the NGO one for \<open>form.role === 'ngo'\<close>, and a section
  shows its Remove button when
  \<^verbatim>\<open>(form.volunteerDocumentUrl || volunteerDocumentFile)\<close> (for the NGO slot,
  \<^verbatim>\<open>(form.ngoProofDocumentUrl || ngoProofFile)\<close>) holds.
\<close>

definition volunteer_section :: "state \<Rightarrow> bool" where
  "volunteer_section s = (\<not> loading s \<and> role (form s) = ''volunteer'')"

definition ngo_section :: "state \<Rightarrow> bool" where
  "ngo_section s = (\<not> loading s \<and> role (form s) = ''ngo'')"

definition volunteer_remove_shown :: "state \<Rightarrow> bool" where
  "volunteer_remove_shown s =
     (volunteer_section s \<and>
      (truthy (volunteerDocumentUrl (form s)) \<or> volunteerDocumentFile s \<noteq> None))"

definition ngo_remove_shown :: "state \<Rightarrow> bool" where
  "ngo_remove_shown s =
     (ngo_section s \<and> (truthy (ngoProofDocumentUrl (form s)) \<or> ngoProofFile s \<noteq> None))"

text \<open>
  The states the page can be in, each with the standing of the submission in flight. The
  page starts in \<open>initial_state\<close> and loads the profile once (the effect has no
  dependencies); until then nothing but the loading card is rendered. Afterwards a step
  is an edit of a rendered input, a file selection or a removal in a rendered section,
  the expiry of the toast, or one of the stretches of a submission; the handlers of the
  inputs run in every standing of the submission, and a submission starts only while
  none is in flight (the submit button is disabled while \<open>saving\<close> is set).
\<close>

inductive reachable :: "state \<Rightarrow> submission \<Rightarrow> bool" where
  start: "reachable initial_state NoSubmission"
| load: "reachable (loadCurrentProfile mounted outcome initial_state) NoSubmission"
| edit: "reachable s sub \<Longrightarrow> \<not> loading s \<Longrightarrow> reachable (handleChange n v s) sub"
| volunteer_file:
    "reachable s sub \<Longrightarrow> volunteer_section s \<Longrightarrow>
     reachable (fst (handleVolunteerFileChange inp s)) sub"
| ngo_file:
    "reachable s sub \<Longrightarrow> ngo_section s \<Longrightarrow> reachable (fst (handleNgoProofChange inp s)) sub"
| volunteer_remove:
    "reachable s sub \<Longrightarrow> volunteer_remove_shown s \<Longrightarrow>
     reachable (handleRemoveVolunteerFile s) sub"
| ngo_remove:
    "reachable s sub \<Longrightarrow> ngo_remove_shown s \<Longrightarrow> reachable (handleRemoveNgoProofFile s) sub"
| toast_expired: "reachable s sub \<Longrightarrow> reachable (s\<lparr>toast := []\<rparr>) sub"
| submit_begin:
    "reachable s NoSubmission \<Longrightarrow> \<not> loading s \<Longrightarrow> \<not> saving s \<Longrightarrow>
     reachable (fst (handleSubmit_begin s)) (snd (handleSubmit_begin s))"
| submit_progress:
    "reachable s AwaitingSave \<Longrightarrow> reachable (onprogress percent s) AwaitingSave"
| submit_loaded:
    "reachable s AwaitingSave \<Longrightarrow>
     reachable (fst (handleSubmit_loaded outcome s)) (snd (handleSubmit_loaded outcome s))"
| submit_refetched:
    "reachable s AwaitingRefetch \<Longrightarrow>
     reachable (handleSubmit_refetched outcome s) NoSubmission"

text \<open>
  The three things a document slot can hold: a remote reference (the URL field of the
  buffer is shown as the current file when it is truthy), a selected file, and the
  removal flag. \<open>active_count\<close> counts how many of them are present.
\<close>

definition volunteer_active :: "state \<Rightarrow> bool list" where
  "volunteer_active s =
     [truthy (volunteerDocumentUrl (form s)), volunteerDocumentFile s \<noteq> None,
      removeVolunteerDocument s]"

definition ngo_active :: "state \<Rightarrow> bool list" where
  "ngo_active s =
     [truthy (ngoProofDocumentUrl (form s)), ngoProofFile s \<noteq> None, removeNgoProofDocument s]"

definition active_count :: "bool list \<Rightarrow> nat" where
  "active_count bs = length (filter (\<lambda>b. b) bs)"

text \<open>
  What does hold in every reachable state: while a slot's removal flag is set, the slot
  has no selected file, and it has no remote reference either unless a submission is
  waiting for its follow-up read (the buffer is then already the save response, and the
  flags are cleared only when the read has settled).
\<close>

definition slots_consistent :: "state \<Rightarrow> submission \<Rightarrow> bool" where
  "slots_consistent s sub =
     ((removeVolunteerDocument s \<longrightarrow>
         volunteerDocumentFile s = None \<and>
         (sub \<noteq> AwaitingRefetch \<longrightarrow> \<not> truthy (volunteerDocumentUrl (form s)))) \<and>
      (removeNgoProofDocument s \<longrightarrow>
         ngoProofFile s = None \<and>
         (sub \<noteq> AwaitingRefetch \<longrightarrow> \<not> truthy (ngoProofDocumentUrl (form s)))))"

text \<open>
  The messages while a submission is in flight: the success message is empty, and the
  only error that can be shown is the one of a rejected file selection.
\<close>

definition messages_in_flight :: "state \<Rightarrow> submission \<Rightarrow> bool" where
  "messages_in_flight s sub =
     (if sub = NoSubmission then \<not> saving s
      else saving s \<and> success s = [] \<and>
           (error s = [] \<or> error s = ''Please upload a PDF or DOC file only.''))"

section \<open>The specification's reading of the skills text\<close>

text \<open>
  The specification describes the skills sent on submit as the comma-separated entries
  of the text, each trimmed, the empty ones dropped. \<open>comma_entries\<close> cuts the text at its
  commas, one entry at a time.
\<close>

function comma_entries :: "string \<Rightarrow> string list" where
  "comma_entries s =
     (case dropWhile (\<lambda>c. c \<noteq> CHR '','') s of
        [] \<Rightarrow> [s]
      | c # rest \<Rightarrow> takeWhile (\<lambda>c. c \<noteq> CHR '','') s # comma_entries rest)"
  by pat_completeness auto
termination
proof (relation "measure length")
  show "wf (measure length)" by simp
next
  fix s :: string and c rest
  assume "dropWhile (\<lambda>c. c \<noteq> CHR '','') s = c # rest"
  then have "length (c # rest) \<le> length s"
    by (metis length_dropWhile_le)
  then show "(rest, s) \<in> measure length" by simp
qed

declare comma_entries.simps [simp del]

definition spec_skills :: "string \<Rightarrow> string list" where
  "spec_skills s = filter (\<lambda>e. e \<noteq> []) (map trim (comma_entries s))"

text \<open>
  The specification calls the value sent the JSON array of these entries. A text is the
  JSON array of a list of strings when reading it as JSON gives that list.
  \<open>parse_string_array\<close> reads a JSON array of strings written without white space
  between its tokens, as \<open>JSON.stringify\<close> writes it: the brackets, the commas, the
  quotes, the two-character escapes and the \<open>\u\<close> escapes (of code units below 256).
\<close>

text \<open>The value of a hexadecimal digit.\<close>

definition unhex :: "char \<Rightarrow> nat option" where
  "unhex c =
     (let n = (of_char c :: nat)
      in if 48 \<le> n \<and> n \<le> 57 then Some (n - 48)
         else if 97 \<le> n \<and> n \<le> 102 then Some (n - 87)
         else if 65 \<le> n \<and> n \<le> 70 then Some (n - 55)
         else None)"

text \<open>The character a two-character escape stands for.\<close>

definition unescape :: "char \<Rightarrow> char option" where
  "unescape e =
     (if e = CHR 0x22 then Some (CHR 0x22)
      else if e = CHR 0x5C then Some (CHR 0x5C)
      else if e = CHR ''/'' then Some (CHR ''/'')
      else if e = CHR ''b'' then Some (CHR 0x08)
      else if e = CHR ''f'' then Some (CHR 0x0C)
      else if e = CHR ''n'' then Some (CHR 0x0A)
      else if e = CHR ''r'' then Some (CHR 0x0D)
      else if e = CHR ''t'' then Some (CHR 0x09)
      else None)"

text \<open>One more character in front of what the rest of the string gives.\<close>

definition keep :: "char \<Rightarrow> (string \<times> string) option \<Rightarrow> (string \<times> string) option" where
  "keep c r = (case r of None \<Rightarrow> None | Some (s, t) \<Rightarrow> Some (c # s, t))"

text \<open>
  The characters of a string after its opening quote: the string, and the text after its
  closing quote.
\<close>

fun string_body :: "string \<Rightarrow> (string \<times> string) option" where
  "string_body [] = None"
| "string_body (c # cs) =
     (if c = CHR 0x22 then Some ([], cs)
      else if c = CHR 0x5C then
        (case cs of
           [] \<Rightarrow> None
         | e # rest \<Rightarrow>
             if e = CHR ''u'' then
               (case rest of
                  h3 # h2 # h1 # h0 # rest' \<Rightarrow>
                    (case (unhex h3, unhex h2, unhex h1, unhex h0) of
                       (Some a, Some b, Some c', Some d) \<Rightarrow>
                         if a = 0 \<and> b = 0
                         then keep (char_of (16 * c' + d)) (string_body rest')
                         else None
                     | _ \<Rightarrow> None)
                | _ \<Rightarrow> None)
             else
               (case unescape e of
                  None \<Rightarrow> None
                | Some x \<Rightarrow> keep x (string_body rest)))
      else if (of_char c :: nat) < 32 then None
      else keep c (string_body cs))"

text \<open>
  The elements of a non-empty array after its opening bracket; the first argument bounds
  the number of elements read.
\<close>

fun string_elements :: "nat \<Rightarrow> string \<Rightarrow> string list option" where
  "string_elements 0 t = None"
| "string_elements (Suc n) t =
     (case t of
        [] \<Rightarrow> None
      | q # cs \<Rightarrow>
          if q \<noteq> CHR 0x22 then None
          else
            (case string_body cs of
               None \<Rightarrow> None
             | Some (s, rest) \<Rightarrow>
                 if rest = '']'' then Some [s]
                 else
                   (case rest of
                      [] \<Rightarrow> None
                    | d # further \<Rightarrow>
                        if d = CHR '','' then map_option ((#) s) (string_elements n further)
                        else None)))"

definition parse_string_array :: "string \<Rightarrow> string list option" where
  "parse_string_array t =
     (case t of
        [] \<Rightarrow> None
      | b # cs \<Rightarrow>
          if b \<noteq> CHR ''['' then None
          else if cs = '']'' then Some []
          else string_elements (length cs) cs)"

section \<open>Values that convert to a string\<close>

text \<open>
  \<open>String(v)\<close> returns for every value except an object with an own \<open>toString\<close>
  property, and an array that holds such an object at some depth.
\<close>

fun convertible :: "jsval \<Rightarrow> bool" where
  "convertible (JArr xs) = list_all convertible xs"
| "convertible (JObj kvs) = (map_of kvs ''toString'' = None)"
| "convertible v = True"

text \<open>A value is text when it is a string; it is text or empty when it is a string or falsy.\<close>

fun is_text :: "jsval \<Rightarrow> bool" where
  "is_text (JStr s) = True"
| "is_text v = False"

definition text_or_falsy :: "jsval \<Rightarrow> bool" where
  "text_or_falsy v = (is_text v \<or> \<not> truthy v)"

text \<open>
  The fields of the buffer other than \<open>role\<close> and \<open>skills\<close>, and for each of them, in the
  same order, the values \<open>mapUserToForm\<close> reads for it (its recognised sources).
\<close>

definition other_fields :: "form \<Rightarrow> jsval list" where
  "other_fields f =
     [fullName f, email f, phone f, bio f, address f, dateOfBirth f, profileImageUrl f,
      volunteerDocumentUrl f, organizationName f, registrationNumber f,
      organizationAddress f, organizationWebsite f, contactPerson f,
      organizationDescription f, ngoProofDocumentUrl f]"

definition field_sources :: "jsval \<Rightarrow> jsval list list" where
  "field_sources user =
     [[getProp user ''fullName'', getProp user ''name''],
      [getProp user ''email''],
      [getProp user ''phone''],
      [getProp user ''bio''],
      [getProp user ''address''],
      [getProp user ''dateOfBirth'', getProp user ''dob''],
      [getProp user ''profileImageUrl'', getProp user ''avatarUrl''],
      [getProp user ''volunteerDocumentUrl'', getProp user ''documentUrl'',
       getProp user ''resumeUrl''],
      [getProp user ''organizationName'', getProp (getProp user ''organization'') ''name''],
      [getProp user ''registrationNumber'',
       getProp (getProp user ''organization'') ''registrationNumber''],
      [getProp user ''organizationAddress'', getProp (getProp user ''organization'') ''address''],
      [getProp user ''organizationWebsite'', getProp (getProp user ''organization'') ''website''],
      [getProp user ''contactPerson'', getProp (getProp user ''organization'') ''contactPerson''],
      [getProp user ''organizationDescription'',
       getProp (getProp user ''organization'') ''description''],
      [getProp user ''ngoProofDocumentUrl'',
       getProp (getProp user ''organization'') ''proofDocumentUrl'']]"

text \<open>The first truthy value of a list of sources, and the empty string when there is none.\<close>

definition first_truthy :: "jsval list \<Rightarrow> jsval" where
  "first_truthy vs = (case filter truthy vs of [] \<Rightarrow> JStr [] | v # rest \<Rightarrow> v)"

text \<open>
  What a field owes to its own sources: it is their first truthy value; so it is a string
  when each of them is a string or falsy, and the empty string when none of them is
  truthy.
\<close>

definition field_typed :: "jsval \<Rightarrow> jsval list \<Rightarrow> bool" where
  "field_typed v vs =
     (v = first_truthy vs \<and>
      (list_all text_or_falsy vs \<longrightarrow> is_text v) \<and>
      (list_all (\<lambda>x. \<not> truthy x) vs \<longrightarrow> v = JStr []))"

text \<open>The entries of the skills array convert to strings (there is nothing to convert otherwise).\<close>

fun skills_convertible :: "jsval \<Rightarrow> bool" where
  "skills_convertible (JArr xs) = list_all convertible xs"
| "skills_convertible v = True"

text \<open>
  \<open>buildFormData\<close> returns a payload exactly for the buffers that are sendable: the
  fields it trims hold strings, and the date of birth converts to a string.
\<close>

definition sendable :: "form \<Rightarrow> bool" where
  "sendable f =
     (list_all is_text [fullName f, email f, phone f, bio f, address f, profileImageUrl f] \<and>
      convertible (dateOfBirth f) \<and>
      (role f = ''ngo'' \<longrightarrow>
         list_all is_text [organizationName f, registrationNumber f, organizationAddress f,
           organizationWebsite f, contactPerson f, organizationDescription f]))"

text \<open>
  The test the page applies to a parsed body before it maps it into the buffer:
  \<^verbatim>\<open>user && typeof user === 'object'\<close>.
\<close>

definition is_profile_object :: "jsval \<Rightarrow> bool" where
  "is_profile_object v = (truthy v \<and> typeof_object v)"

text \<open>
  The ways the follow-up read can fail: the request is rejected (a network error), the
  status is not a success, or the body is malformed (it is not announced as JSON, it does
  not parse, it is not an object, or it cannot be mapped into the buffer).
\<close>

definition refetch_fails :: "fetch_outcome \<Rightarrow> bool" where
  "refetch_fails outcome =
     (case outcome of
        FetchRejected e \<Rightarrow> True
      | FetchResponse response \<Rightarrow>
          \<not> resp_ok response \<or> \<not> isJsonResponse response \<or>
          (case resp_json response of
             None \<Rightarrow> True
           | Some v \<Rightarrow> \<not> is_profile_object v \<or> isl (mapUserToForm v)))"

section \<open>Sample data\<close>

text \<open>Two files, two profiles as the server sends them, and the page after loading each.\<close>

definition resume_exe :: js_file where
  "resume_exe =
     \<lparr>file_name = ''resume.exe'', file_type = ''application/x-msdownload'', file_size = 20480\<rparr>"

definition resume_pdf :: js_file where
  "resume_pdf = \<lparr>file_name = ''resume.pdf'', file_type = ''application/pdf'', file_size = 20480\<rparr>"

definition volunteer_profile :: jsval where
  "volunteer_profile =
     JObj [(''role'', JStr ''volunteer''), (''fullName'', JStr ''Asha Rao''),
           (''email'', JStr ''asha@example.org''),
           (''skills'', JArr [JStr ''Teaching'', JStr ''Fundraising'']),
           (''documentUrl'', JStr ''/uploads/cv.pdf'')]"


definition json_response :: "jsval \<Rightarrow> fetch_outcome" where
  "json_response v =
     FetchResponse \<lparr>resp_ok = True, resp_contentType = Some ''application/json; charset=utf-8'',
                    resp_json = Some v\<rparr>"

definition loaded_volunteer :: state where
  "loaded_volunteer = loadCurrentProfile True (json_response volunteer_profile) initial_state"


definition choose_file :: "js_file \<Rightarrow> file_input" where
  "choose_file file = \<lparr>input_files = Some [file], input_value = file_name file\<rparr>"

text \<open>
  Responses to a save: a 400 with a message, a 400 with an empty message, a 502 page of
  a proxy, and a 200 with the updated profile; and a submission that receives a given
  response, after two progress events, and whose follow-up read is rejected.
\<close>

definition save_400 :: xhr_response where
  \<open>save_400 =
     \<lparr>xhr_status = 400, xhr_responseText = ''{"message":"Email already in use"}'',
      xhr_contentType = Some ''application/json; charset=utf-8'',
      xhr_parsed = Some (JObj [(''message'', JStr ''Email already in use'')])\<rparr>\<close>

definition save_400_blank :: xhr_response where
  \<open>save_400_blank =
     \<lparr>xhr_status = 400, xhr_responseText = ''{"message":""}'',
      xhr_contentType = Some ''application/json; charset=utf-8'',
      xhr_parsed = Some (JObj [(''message'', JStr [])])\<rparr>\<close>

definition save_502 :: xhr_response where
  \<open>save_502 =
     \<lparr>xhr_status = 502, xhr_responseText = ''<html><body>{"message":"x"}</body></html>'',
      xhr_contentType = Some ''text/html'',
      xhr_parsed = None\<rparr>\<close>

definition save_200 :: xhr_response where
  \<open>save_200 =
     \<lparr>xhr_status = 200, xhr_responseText = ''{"role":"volunteer","fullName":"Asha R."}'',
      xhr_contentType = Some ''application/json; charset=utf-8'',
      xhr_parsed = Some (JObj [(''role'', JStr ''volunteer''), (''fullName'', JStr ''Asha R.'')])\<rparr>\<close>

definition answered :: "xhr_response \<Rightarrow> submit_env" where
  "answered r =
     \<lparr>env_progress = [40, 100], env_save = XhrLoad r,
      env_refetch = FetchRejected (TypeError ''Failed to fetch'')\<rparr>"

text \<open>
  A profile with a numeric phone; a 200 whose profile still names the document; a
  rejected read; and two runs of a submission with another handler in between: one where
  \<open>resume.exe\<close> is chosen while the save is in flight, and one that follows a removal
  and is answered with a profile that still names the document.
\<close>

definition asha_ngo :: jsval where
  "asha_ngo =
     JObj [(''role'', JStr ''NGO''), (''name'', JStr ''Asha''), (''skills'', JNull),
           (''phone'', JNum ''9876543210''),
           (''organization'', JObj [(''name'', JStr ''Helping Hands'')])]"

definition save_200_echo :: xhr_response where
  \<open>save_200_echo =
     \<lparr>xhr_status = 200,
      xhr_responseText = ''{"role":"volunteer","documentUrl":"/uploads/cv.pdf"}'',
      xhr_contentType = Some ''application/json; charset=utf-8'',
      xhr_parsed =
        Some (JObj [(''role'', JStr ''volunteer''), (''documentUrl'', JStr ''/uploads/cv.pdf'')])\<rparr>\<close>

definition rejected_fetch :: fetch_outcome where
  "rejected_fetch = FetchRejected (TypeError ''Failed to fetch'')"

definition sending_volunteer :: state where
  "sending_volunteer = fst (handleSubmit_begin loaded_volunteer)"

definition sending_rejected :: state where
  "sending_rejected = fst (handleVolunteerFileChange (choose_file resume_exe) sending_volunteer)"

definition saved_rejected :: state where
  "saved_rejected = fst (handleSubmit_loaded (XhrLoad save_200) sending_rejected)"

definition done_rejected :: state where
  "done_rejected = handleSubmit_refetched rejected_fetch saved_rejected"

definition sending_removal :: state where
  "sending_removal = fst (handleSubmit_begin (handleRemoveVolunteerFile loaded_volunteer))"

definition saved_removal :: state where
  "saved_removal = fst (handleSubmit_loaded (XhrLoad save_200_echo) sending_removal)"


section \<open>Conversion to strings\<close>

lemma js_String_convertible:
  "convertible v \<longleftrightarrow> (\<exists>t. js_String v = Inr t)"
  "list_all convertible xs \<longleftrightarrow> (\<exists>t. join_elems sep xs = Inr t)"
  by (induction v and sep xs rule: js_String_join_elems.induct)
     (auto split: sum.splits)

lemma convertible_or_empty: "convertible v \<Longrightarrow> convertible (js_or v (JStr []))"
  by (simp add: js_or_def)

lemma normalizeRole_cases:
  "normalizeRole v = Inr r \<Longrightarrow> r = ''ngo'' \<or> r = ''volunteer''"
  by (auto simp: normalizeRole_def split: sum.splits if_splits)

lemma normalizeRole_returns:
  "convertible v \<Longrightarrow> \<exists>r. normalizeRole v = Inr r"
  using js_String_convertible(1) [of "js_or v (JStr [])"] convertible_or_empty [of v]
  by (auto simp: normalizeRole_def)

section \<open>The role and its label\<close>

text \<open>
  Claim C7, as the code has it. For every role value the server can supply that
  \<open>String\<close> converts (every value but an object with an own \<open>toString\<close> property, or an
  array holding one), \<open>normalizeRole\<close> returns \<open>ngo\<close> exactly when the converted value,
  lowercased, is \<open>ngo\<close>, and \<open>volunteer\<close> otherwise; the role pill then reads \<open>NGO\<close> in
  the first case and \<open>Volunteer\<close> in the second. Every string is such a value, and so are
  \<open>null\<close> and an absent role, which give \<open>volunteer\<close>.
\<close>

theorem normalizeRole_roleLabel:
  "(convertible v \<longrightarrow>
      (\<exists>t. js_String (js_or v (JStr [])) = Inr t \<and>
           normalizeRole v = Inr (if toLowerCase t = ''ngo'' then ''ngo'' else ''volunteer'') \<and>
           (\<forall>r. normalizeRole v = Inr r \<longrightarrow>
                roleLabel r = (if toLowerCase t = ''ngo'' then ''NGO'' else ''Volunteer'')))) \<and>
   normalizeRole (JStr s) = Inr (if toLowerCase s = ''ngo'' then ''ngo'' else ''volunteer'') \<and>
   normalizeRole JNull = Inr ''volunteer'' \<and>
   normalizeRole JUndefined = Inr ''volunteer''"
proof -
  have str: "normalizeRole (JStr s) =
      Inr (if toLowerCase s = ''ngo'' then ''ngo'' else ''volunteer'')"
    by (cases s) (simp_all add: normalizeRole_def js_or_def toLowerCase_def)
  have absent:
    "normalizeRole JNull = Inr ''volunteer''" "normalizeRole JUndefined = Inr ''volunteer''"
    by (simp_all add: normalizeRole_def js_or_def toLowerCase_def)
  have conv: "\<exists>t. js_String (js_or v (JStr [])) = Inr t \<and>
           normalizeRole v = Inr (if toLowerCase t = ''ngo'' then ''ngo'' else ''volunteer'') \<and>
           (\<forall>r. normalizeRole v = Inr r \<longrightarrow>
                roleLabel r = (if toLowerCase t = ''ngo'' then ''NGO'' else ''Volunteer''))"
    if "convertible v"
  proof -
    from that have "convertible (js_or v (JStr []))" by (rule convertible_or_empty)
    then obtain t where t: "js_String (js_or v (JStr [])) = Inr t"
      using js_String_convertible(1) by blast
    then show ?thesis
      by (auto simp: normalizeRole_def roleLabel_def)
  qed
  from str absent conv show ?thesis by blast
qed

text \<open>
  Claim C7 at the role value \<open>NGO\<close> (normalised to \<open>ngo\<close>, shown as \<open>NGO\<close>) and at the
  role value \<open>admin\<close> (normalised to \<open>volunteer\<close>).
\<close>

theorem normalizeRole_roleLabel_witness:
  "convertible (JStr ''NGO'') \<and> normalizeRole (JStr ''NGO'') = Inr ''ngo'' \<and>
   roleLabel ''ngo'' = ''NGO'' \<and> normalizeRole (JStr ''admin'') = Inr ''volunteer''"
  using normalizeRole_roleLabel [of "JStr ''NGO''" "''admin''"]
  by (simp add: js_or_def toLowerCase_def lower_char_def roleLabel_def)

text \<open>
  Claim C7 as written speaks of every role value. At the role value \<open>{"toString": 1}\<close>
  there is no normalised role: \<open>String\<close> finds the own property \<open>toString\<close>, which is not
  callable, \<open>valueOf\<close> gives the object back, and \<open>normalizeRole\<close> throws.
\<close>

theorem normalizeRole_throws:
  "normalizeRole (JObj [(''toString'', JNum ''1'')]) =
     Inl (TypeError ''Cannot convert object to primitive value'')"
  by (simp add: normalizeRole_def js_or_def)

section \<open>Mapping the server's profile into the buffer\<close>

lemma first_truthy_or:
  "first_truthy [a] = js_or a (JStr [])"
  "first_truthy [a, b] = js_or (js_or a b) (JStr [])"
  "first_truthy [a, b, c] = js_or (js_or (js_or a b) c) (JStr [])"
  by (simp_all add: first_truthy_def js_or_def)

lemma first_truthy_text: "list_all text_or_falsy vs \<Longrightarrow> is_text (first_truthy vs)"
  by (induction vs) (auto simp: first_truthy_def text_or_falsy_def)

lemma first_truthy_default: "list_all (\<lambda>x. \<not> truthy x) vs \<Longrightarrow> first_truthy vs = JStr []"
  by (induction vs) (auto simp: first_truthy_def)

lemma field_typed_first: "field_typed (first_truthy vs) vs"
  by (simp add: field_typed_def first_truthy_text first_truthy_default)

lemma normalizeRole_convertible: "(\<exists>r. normalizeRole v = Inr r) \<longleftrightarrow> convertible v"
proof
  assume "\<exists>r. normalizeRole v = Inr r"
  then have "\<exists>t. js_String (js_or v (JStr [])) = Inr t"
    by (auto simp: normalizeRole_def split: sum.splits)
  then have "convertible (js_or v (JStr []))"
    using js_String_convertible(1) by blast
  then show "convertible v"
    by (cases "truthy v") (simp_all add: js_or_def, cases v, simp_all)
next
  assume "convertible v"
  then show "\<exists>r. normalizeRole v = Inr r" by (rule normalizeRole_returns)
qed

lemma skills_text_convertible:
  "(\<exists>sk. (case v of JArr xs \<Rightarrow> join_elems '', '' xs | _ \<Rightarrow> Inr []) = Inr sk) \<longleftrightarrow>
     skills_convertible v"
  using js_String_convertible(2) by (cases v) auto

lemma mapUserToForm_returns:
  "(\<exists>f. mapUserToForm user = Inr f) \<longleftrightarrow>
     convertible (getProp user ''role'') \<and> skills_convertible (getProp user ''skills'')"
proof -
  have "(\<exists>f. mapUserToForm user = Inr f) \<longleftrightarrow>
      (\<exists>r. normalizeRole (getProp user ''role'') = Inr r) \<and>
      (\<exists>sk. (case getProp user ''skills'' of JArr xs \<Rightarrow> join_elems '', '' xs | _ \<Rightarrow> Inr [])
            = Inr sk)"
    by (auto simp: mapUserToForm_def split: sum.splits)
  then show ?thesis
    by (simp only: normalizeRole_convertible skills_text_convertible)
qed

lemma mapUserToForm_fields:
  assumes "mapUserToForm user = Inr f"
  shows "normalizeRole (getProp user ''role'') = Inr (role f)"
    and "(case getProp user ''skills'' of JArr xs \<Rightarrow> join_elems '', '' xs | _ \<Rightarrow> Inr [])
           = Inr (skills f)"
    and "other_fields f = map first_truthy (field_sources user)"
proof -
  from assms obtain r sk where r: "normalizeRole (getProp user ''role'') = Inr r"
    and sk: "(case getProp user ''skills'' of JArr xs \<Rightarrow> join_elems '', '' xs | _ \<Rightarrow> Inr [])
           = Inr sk"
    by (auto simp: mapUserToForm_def split: sum.splits)
  from assms have "role f = r" "skills f = sk"
    by (auto simp: mapUserToForm_def r sk)
  with r sk show "normalizeRole (getProp user ''role'') = Inr (role f)"
    "(case getProp user ''skills'' of JArr xs \<Rightarrow> join_elems '', '' xs | _ \<Rightarrow> Inr [])
           = Inr (skills f)"
    by simp_all
  from assms show "other_fields f = map first_truthy (field_sources user)"
    by (auto simp: mapUserToForm_def r sk other_fields_def field_sources_def first_truthy_or)
qed

text \<open>
  Claim C10, as the code has it. \<open>mapUserToForm\<close> returns a buffer exactly for the profile
  objects whose role and whose skills entries \<open>String\<close> converts. In the buffer it returns,
  the role is \<open>ngo\<close> or \<open>volunteer\<close> (the normalised role of the profile); a skills value
  that is not an array gives the empty skills text, and an array gives its entries joined
  by a comma and a space; and each other field is the first truthy value among its own
  recognised sources, taken as it is, and the empty string when none of them is truthy.
  So each of these fields is a string whenever each of its own sources is a string or
  falsy (absent, \<open>null\<close>, \<open>false\<close>, \<open>0\<close>, the empty string), whatever the other fields
  hold.
\<close>

theorem mapUserToForm_buffer:
  "((\<exists>f. mapUserToForm user = Inr f) \<longleftrightarrow>
      convertible (getProp user ''role'') \<and> skills_convertible (getProp user ''skills'')) \<and>
   (\<forall>f. mapUserToForm user = Inr f \<longrightarrow>
      (role f = ''ngo'' \<or> role f = ''volunteer'') \<and>
      normalizeRole (getProp user ''role'') = Inr (role f) \<and>
      ((\<forall>xs. getProp user ''skills'' \<noteq> JArr xs) \<longrightarrow> skills f = []) \<and>
      (\<forall>xs. getProp user ''skills'' = JArr xs \<longrightarrow> join_elems '', '' xs = Inr (skills f)) \<and>
      other_fields f = map first_truthy (field_sources user) \<and>
      list_all2 field_typed (other_fields f) (field_sources user))"
proof (intro conjI allI impI)
  show "(\<exists>f. mapUserToForm user = Inr f) \<longleftrightarrow>
      convertible (getProp user ''role'') \<and> skills_convertible (getProp user ''skills'')"
    by (rule mapUserToForm_returns)
next
  fix f
  assume f: "mapUserToForm user = Inr f"
  note facts = mapUserToForm_fields [OF f]
  show "role f = ''ngo'' \<or> role f = ''volunteer''"
    using normalizeRole_cases [OF facts(1)] .
  show "normalizeRole (getProp user ''role'') = Inr (role f)"
    by (rule facts(1))
  show "skills f = []" if "\<forall>xs. getProp user ''skills'' \<noteq> JArr xs"
    using facts(2) that by (cases "getProp user ''skills''") auto
  show "join_elems '', '' xs = Inr (skills f)" if "getProp user ''skills'' = JArr xs" for xs
    using facts(2) that by simp
  show "other_fields f = map first_truthy (field_sources user)"
    by (rule facts(3))
  show "list_all2 field_typed (other_fields f) (field_sources user)"
    unfolding facts(3) by (simp add: list_all2_conv_all_nth field_typed_first)
qed

text \<open>
  Claim C10 at the profile \<open>{"role": "NGO", "name": "Asha", "skills": null,
  "phone": 9876543210, "organization": {"name": "Helping Hands"}}\<close>: the buffer has
  role \<open>ngo\<close> and the empty skills text, every field is the first truthy value of its
  sources, and the email is a string although the phone is a number.
\<close>

theorem mapUserToForm_buffer_witness:
  "convertible (getProp asha_ngo ''role'') \<and> skills_convertible (getProp asha_ngo ''skills'') \<and>
   mapUserToForm asha_ngo =
     Inr (defaultForm\<lparr>role := ''ngo'', fullName := JStr ''Asha'', phone := JNum ''9876543210'',
            organizationName := JStr ''Helping Hands''\<rparr>) \<and>
   list_all2 field_typed
     (other_fields (defaultForm\<lparr>role := ''ngo'', fullName := JStr ''Asha'',
        phone := JNum ''9876543210'', organizationName := JStr ''Helping Hands''\<rparr>))
     (field_sources asha_ngo) \<and>
   is_text (email (defaultForm\<lparr>role := ''ngo'', fullName := JStr ''Asha'',
        phone := JNum ''9876543210'', organizationName := JStr ''Helping Hands''\<rparr>))"
proof -
  have m: "mapUserToForm asha_ngo =
     Inr (defaultForm\<lparr>role := ''ngo'', fullName := JStr ''Asha'', phone := JNum ''9876543210'',
            organizationName := JStr ''Helping Hands''\<rparr>)"
    by (simp add: asha_ngo_def mapUserToForm_def normalizeRole_def js_or_def toLowerCase_def
        lower_char_def defaultForm_def)
  have c: "convertible (getProp asha_ngo ''role'')" "skills_convertible (getProp asha_ngo ''skills'')"
    by (simp_all add: asha_ngo_def)
  from mapUserToForm_buffer [of asha_ngo] m
  have t: "list_all2 field_typed
     (other_fields (defaultForm\<lparr>role := ''ngo'', fullName := JStr ''Asha'',
        phone := JNum ''9876543210'', organizationName := JStr ''Helping Hands''\<rparr>))
     (field_sources asha_ngo)"
    by blast
  have e: "is_text (email (defaultForm\<lparr>role := ''ngo'', fullName := JStr ''Asha'',
        phone := JNum ''9876543210'', organizationName := JStr ''Helping Hands''\<rparr>))"
    by (simp add: defaultForm_def)
  from c m t e show ?thesis
    by (intro conjI)
qed

text \<open>
  Claim C10 as written says that every field other than the role is always a string. At
  the profile \<open>{"phone": 9876543210}\<close> the buffer's phone is the number itself.
\<close>

theorem mapUserToForm_number_phone:
  "mapUserToForm (JObj [(''phone'', JNum ''9876543210'')]) =
     Inr (defaultForm\<lparr>phone := JNum ''9876543210''\<rparr>) \<and>
   \<not> list_all is_text (other_fields (defaultForm\<lparr>phone := JNum ''9876543210''\<rparr>))"
  by (simp add: mapUserToForm_def normalizeRole_def js_or_def toLowerCase_def
      defaultForm_def other_fields_def)

section \<open>The sample data, evaluated\<close>

lemma loaded_volunteer_eq: "loaded_volunteer = \<lparr>
     form = \<lparr>role = ''volunteer'', fullName = JStr ''Asha Rao'', email = JStr ''asha@example.org'',
        phone = JStr [], bio = JStr [], skills = ''Teaching, Fundraising'',
        address = JStr [], dateOfBirth = JStr [], profileImageUrl = JStr [],
        volunteerDocumentUrl = JStr ''/uploads/cv.pdf'', organizationName = JStr [],
        registrationNumber = JStr [], organizationAddress = JStr [],
        organizationWebsite = JStr [], contactPerson = JStr [],
        organizationDescription = JStr [], ngoProofDocumentUrl = JStr []\<rparr>,
     loading = False,
     saving = False,
     uploadProgress = 0,
     error = [],
     success = [],
     toast = [],
     volunteerDocumentFile = None,
     ngoProofFile = None,
     removeVolunteerDocument = False,
     removeNgoProofDocument = False \<rparr>"
  by (simp add: loaded_volunteer_def loadCurrentProfile_def load_try_def json_response_def
      readResponseJson_def isJsonResponse_def header_or_empty_def toLowerCase_def lower_char_def
      volunteer_profile_def mapUserToForm_def normalizeRole_def js_or_def initial_state_def
      defaultForm_def Let_def)


section \<open>The payload of a submission\<close>

lemma appends_Inr: "appends xs = Inr p \<Longrightarrow> xs = map (\<lambda>(k, v). (k, Inr v)) p"
  by (induction xs arbitrary: p) (auto split: sum.splits)


lemma appends_lookup:
  "appends xs = Inr p \<Longrightarrow>
     map_of p k = (case map_of xs k of
                     None \<Rightarrow> None
                   | Some c \<Rightarrow> (case c of Inl e \<Rightarrow> None | Inr v \<Rightarrow> Some v))"
  by (induction xs arbitrary: p) (auto split: sum.splits)

lemma appends_returns: "(\<exists>p. appends xs = Inr p) \<longleftrightarrow> list_all (\<lambda>kc. \<not> isl (snd kc)) xs"
  by (induction xs) (auto split: sum.splits)

lemma dot_trim_returns [simp]: "isl (dot_trim v) \<longleftrightarrow> \<not> is_text v"
  by (cases v) simp_all

lemma to_text_returns [simp]: "isl (to_text v) \<longleftrightarrow> \<not> convertible v"
  using js_String_convertible(1) [of v]
  by (auto simp: to_text_def split: sum.splits)

lemma buildFormData_returns:
  "(\<exists>p. buildFormData f vfile nfile rv rn = Inr p) \<longleftrightarrow> sendable f"
  unfolding buildFormData_def appends_returns sendable_def
  by (auto split: option.splits)


lemma buildFormData_lookup:
  assumes "buildFormData f vfile nfile rv rn = Inr p"
  shows "role f = ''volunteer'' \<Longrightarrow>
           map_of p ''skills'' = Some (Text (JSON_stringify
             (filter (\<lambda>v. v \<noteq> []) (map trim (js_split (CHR '','') (skills f))))))"
    and "role f = ''volunteer'' \<Longrightarrow> map_of p ''file'' = map_option Blob vfile"
    and "role f = ''volunteer'' \<Longrightarrow>
           map_of p ''removeDocument'' = (if rv then Some (Text ''true'') else None)"
    and "role f = ''ngo'' \<Longrightarrow> map_of p ''ngoProofFile'' = map_option Blob nfile"
    and "role f = ''ngo'' \<Longrightarrow>
           map_of p ''removeNgoProofDocument'' = (if rn then Some (Text ''true'') else None)"
  using appends_lookup [OF assms [unfolded buildFormData_def], of "''skills''"]
        appends_lookup [OF assms [unfolded buildFormData_def], of "''file''"]
        appends_lookup [OF assms [unfolded buildFormData_def], of "''removeDocument''"]
        appends_lookup [OF assms [unfolded buildFormData_def], of "''ngoProofFile''"]
        appends_lookup [OF assms [unfolded buildFormData_def], of "''removeNgoProofDocument''"]
  by (simp_all split: option.splits)






section \<open>The skills text\<close>

lemma comma_entries_last:
  assumes "dropWhile (\<lambda>c. c \<noteq> CHR '','') s = []"
  shows "comma_entries s = [s]"
  by (subst comma_entries.simps) (simp only: assms list.case)

lemma comma_entries_next:
  assumes "dropWhile (\<lambda>c. c \<noteq> CHR '','') s = c # rest"
  shows "comma_entries s = takeWhile (\<lambda>c. c \<noteq> CHR '','') s # comma_entries rest"
  by (subst comma_entries.simps) (simp only: assms list.case)

lemma js_split_comma_entries: "js_split (CHR '','') s = comma_entries s"
proof (induction s)
  case Nil
  show ?case by (simp add: comma_entries_last)
next
  case (Cons c cs)
  show ?case
  proof (cases "c = CHR '',''")
    case True
    then have "dropWhile (\<lambda>c. c \<noteq> CHR '','') (c # cs) = c # cs"
      by simp
    from comma_entries_next [OF this] True
    have "comma_entries (c # cs) = [] # comma_entries cs"
      by simp
    with True Cons.IH show ?thesis by simp
  next
    case False
    show ?thesis
    proof (cases "dropWhile (\<lambda>c. c \<noteq> CHR '','') cs")
      case Nil
      with False have "comma_entries (c # cs) = [c # cs]" "comma_entries cs = [cs]"
        by (simp_all add: comma_entries_last)
      with False Cons.IH show ?thesis by simp
    next
      case (Cons d rest)
      with False have
        "comma_entries (c # cs) =
           (c # takeWhile (\<lambda>c. c \<noteq> CHR '','') cs) # comma_entries rest"
        "comma_entries cs = takeWhile (\<lambda>c. c \<noteq> CHR '','') cs # comma_entries rest"
        by (simp_all add: comma_entries_next [of _ d rest])
      with False Cons.IH show ?thesis by simp
    qed
  qed
qed

lemma js_split_not_empty: "js_split sep s \<noteq> []"
  by (induction s) (auto split: list.splits)

lemma js_split_no_sep: "e \<in> set (js_split sep s) \<Longrightarrow> sep \<notin> set e"
  by (induction s arbitrary: e) (auto split: if_splits list.splits)

lemma js_split_join: "join_commas (js_split (CHR '','') s) = s"
proof (induction s)
  case Nil
  show ?case by simp
next
  case (Cons c cs)
  obtain p ps where p: "js_split (CHR '','') cs = p # ps"
    using js_split_not_empty [of "CHR '',''" cs] by (cases "js_split (CHR '','') cs") auto
  with Cons.IH show ?case
    by (cases ps) auto
qed

lemma trim_set: "set (trim s) \<subseteq> set s"
proof
  fix x
  assume "x \<in> set (trim s)"
  then have "x \<in> set (dropWhile is_space (rev (dropWhile is_space s)))"
    by (simp add: trim_def)
  then have "x \<in> set (rev (dropWhile is_space s))"
    by (rule set_dropWhileD)
  then have "x \<in> set (dropWhile is_space s)"
    by simp
  then show "x \<in> set s"
    by (rule set_dropWhileD)
qed

lemma trim_ends:
  assumes "trim s \<noteq> []"
  shows "\<not> is_space (hd (trim s))" and "\<not> is_space (last (trim s))"
proof -
  let ?t = "dropWhile is_space s"
  let ?u = "dropWhile is_space (rev ?t)"
  from assms have u: "?u \<noteq> []" by (simp add: trim_def)
  have t: "?t \<noteq> []"
  proof
    assume empty: "?t = []"
    have "?u = []" unfolding empty by simp
    with u show False by contradiction
  qed
  have "last (trim s) = hd ?u"
    using u by (simp add: trim_def last_rev)
  then show "\<not> is_space (last (trim s))"
    using u hd_dropWhile [of is_space "rev ?t"] by simp
  obtain pre where pre: "rev ?t = pre @ ?u"
    by (metis takeWhile_dropWhile_id)
  have "hd (trim s) = last ?u"
    using u by (simp add: trim_def hd_rev)
  also have "\<dots> = last (rev ?t)"
    using u pre by (metis last_appendR)
  also have "\<dots> = hd ?t"
    using t by (simp add: last_rev)
  finally show "\<not> is_space (hd (trim s))"
    using t hd_dropWhile [of is_space s] by simp
qed

lemma spec_skills_entries:
  assumes "e \<in> set (spec_skills s)"
  shows "e \<noteq> [] \<and> CHR '','' \<notin> set e \<and> \<not> is_space (hd e) \<and> \<not> is_space (last e)"
proof -
  from assms obtain x where x: "x \<in> set (js_split (CHR '','') s)"
    and e: "e = trim x" "trim x \<noteq> []"
    by (auto simp: spec_skills_def js_split_comma_entries)
  from js_split_no_sep [OF x] trim_set [of x] have "CHR '','' \<notin> set e"
    unfolding e by blast
  with e trim_ends [OF e(2)] show ?thesis by simp
qed



lemma unhex_hex_digit: "k < 16 \<Longrightarrow> unhex (hex_digit k) = Some k"
proof -
  have "\<forall>k \<in> {0..<16}. unhex (hex_digit k) = Some k"
    by code_simp
  then show "k < 16 \<Longrightarrow> unhex (hex_digit k) = Some k"
    by simp
qed

lemma unhex_zero: "unhex (CHR ''0'') = Some 0"
  by (simp add: unhex_def)

lemma string_body_escape:
  "string_body (json_escape c @ t) = keep c (string_body t)"
proof -
  let ?n = "of_char c :: nat"
  consider (quote) "?n = 34" | (backslash) "?n = 92" | (b) "?n = 8" | (f) "?n = 12"
    | (n) "?n = 10" | (r) "?n = 13" | (t) "?n = 9"
    | (control) "?n < 32" "?n \<noteq> 8" "?n \<noteq> 12" "?n \<noteq> 10" "?n \<noteq> 13" "?n \<noteq> 9"
    | (plain) "?n \<ge> 32" "?n \<noteq> 34" "?n \<noteq> 92"
    by linarith
  then show ?thesis
  proof cases
    case quote
    then have "c = CHR 0x22" by (intro of_char_eqI [where ?'a = nat]) simp
    then show ?thesis by (simp add: json_escape_def unescape_def)
  next
    case backslash
    then have "c = CHR 0x5C" by (intro of_char_eqI [where ?'a = nat]) simp
    then show ?thesis by (simp add: json_escape_def unescape_def)
  next
    case b
    then have "c = CHR 0x08" by (intro of_char_eqI [where ?'a = nat]) simp
    then show ?thesis by (simp add: json_escape_def unescape_def)
  next
    case f
    then have "c = CHR 0x0C" by (intro of_char_eqI [where ?'a = nat]) simp
    then show ?thesis by (simp add: json_escape_def unescape_def)
  next
    case n
    then have "c = CHR 0x0A" by (intro of_char_eqI [where ?'a = nat]) simp
    then show ?thesis by (simp add: json_escape_def unescape_def)
  next
    case r
    then have "c = CHR 0x0D" by (intro of_char_eqI [where ?'a = nat]) simp
    then show ?thesis by (simp add: json_escape_def unescape_def)
  next
    case t
    then have "c = CHR 0x09" by (intro of_char_eqI [where ?'a = nat]) simp
    then show ?thesis by (simp add: json_escape_def unescape_def)
  next
    case control
    then have esc: "json_escape c =
        [CHR 0x5C, CHR ''u'', CHR ''0'', CHR ''0'', hex_digit (?n div 16), hex_digit (?n mod 16)]"
      by (simp add: json_escape_def Let_def)
    from control have "?n div 16 < 16" "?n mod 16 < 16" by simp_all
    then have hex: "unhex (hex_digit (?n div 16)) = Some (?n div 16)"
      "unhex (hex_digit (?n mod 16)) = Some (?n mod 16)"
      by (simp_all add: unhex_hex_digit)
    have "char_of (16 * (?n div 16) + ?n mod 16) = c"
      by simp
    then show ?thesis
      unfolding esc by (simp add: unhex_zero hex)
  next
    case plain
    then have "c \<noteq> CHR 0x22" "c \<noteq> CHR 0x5C" by auto
    with plain show ?thesis
      by (simp add: json_escape_def Let_def)
  qed
qed

lemma string_body_quoted:
  "string_body (concat (map json_escape s) @ CHR 0x22 # t) = Some (s, t)"
  by (induction s) (simp_all add: string_body_escape keep_def)

lemma string_elements_last: "string_elements (Suc m) (json_quote x @ '']'') = Some [x]"
  by (simp add: json_quote_def string_body_quoted)

lemma string_elements_next:
  "string_elements (Suc m) (json_quote x @ CHR '','' # t) =
     map_option ((#) x) (string_elements m t)"
  by (simp add: json_quote_def string_body_quoted)

lemma string_elements_quoted:
  "length xs < n \<Longrightarrow>
   string_elements n (join_commas (map json_quote (x # xs)) @ '']'') = Some (x # xs)"
proof (induction xs arbitrary: x n)
  case Nil
  then obtain m where n: "n = Suc m" by (cases n) auto
  show ?case
    unfolding n by (simp only: list.map join_commas.simps string_elements_last)
next
  case (Cons y ys)
  then obtain m where n: "n = Suc m" and m: "length ys < m" by (cases n) auto
  from Cons.IH [OF m, of y]
  have "string_elements m (join_commas (map json_quote (y # ys)) @ '']'') = Some (y # ys)" .
  moreover
  have "join_commas (map json_quote (x # y # ys)) @ '']'' =
      json_quote x @ CHR '','' # (join_commas (map json_quote (y # ys)) @ '']'')"
    by simp
  ultimately show ?case
    by (simp only: n string_elements_next option.map)
qed

lemma join_commas_length: "length xs \<le> length (join_commas (map json_quote xs)) + 1"
  by (induction xs rule: join_commas.induct) (simp_all add: json_quote_def)

lemma parse_stringify: "parse_string_array (JSON_stringify xs) = Some xs"
proof (cases xs)
  case Nil
  then show ?thesis by (simp add: parse_string_array_def JSON_stringify_def)
next
  case (Cons x ys)
  have quoted: "join_commas (map json_quote (x # ys)) @ '']'' \<noteq> '']''"
    by (cases ys) (simp_all add: json_quote_def)
  have "length ys < length (join_commas (map json_quote (x # ys)) @ '']'')"
    using join_commas_length [of "x # ys"] by simp
  from string_elements_quoted [OF this] quoted show ?thesis
    by (simp add: Cons parse_string_array_def JSON_stringify_def)
qed

text \<open>
  Claim C2. For a volunteer, a payload is built exactly when the buffer is sendable, and
  the \<open>skills\<close> entry of every payload built is a text that reads back, as a JSON array
  of strings, to the comma-separated entries of the skills text, each trimmed, the empty
  ones dropped (it is the text \<open>JSON_stringify\<close> writes for them, and whatever
  \<open>JSON_stringify\<close> writes reads back to what was written). These entries are not empty,
  hold no comma and neither start nor end with white space; the comma-separated entries
  joined by commas are the text itself; and for the skills text
  \<open>Teaching, Event Management,  Fundraising,, \<close> the entries are \<open>Teaching\<close>,
  \<open>Event Management\<close> and \<open>Fundraising\<close>, and the value sent is
  \<open>["Teaching","Event Management","Fundraising"]\<close>.
\<close>

theorem skills_serialised:
  \<open>(role f = ''volunteer'' \<longrightarrow>
      (sendable f \<longleftrightarrow> (\<exists>p. buildFormData f vfile nfile rv rn = Inr p)) \<and>
      (\<forall>p. buildFormData f vfile nfile rv rn = Inr p \<longrightarrow>
         map_of p ''skills'' = Some (Text (JSON_stringify (spec_skills (skills f)))) \<and>
         (\<exists>t. map_of p ''skills'' = Some (Text t) \<and>
              parse_string_array t = Some (spec_skills (skills f))) \<and>
         (skills f = ''Teaching, Event Management,  Fundraising,, '' \<longrightarrow>
            map_of p ''skills'' =
              Some (Text ''["Teaching","Event Management","Fundraising"]'')))) \<and>
   parse_string_array (JSON_stringify xs) = Some xs \<and>
   (\<forall>e \<in> set (spec_skills s).
      e \<noteq> [] \<and> CHR '','' \<notin> set e \<and> \<not> is_space (hd e) \<and> \<not> is_space (last e)) \<and>
   join_commas (comma_entries s) = s \<and>
   spec_skills ''Teaching, Event Management,  Fundraising,, '' =
     [''Teaching'', ''Event Management'', ''Fundraising'']\<close>
proof (intro conjI impI allI)
  show "sendable f \<longleftrightarrow> (\<exists>p. buildFormData f vfile nfile rv rn = Inr p)"
    by (simp only: buildFormData_returns)
next
  fix p
  assume r: "role f = ''volunteer''" and p: "buildFormData f vfile nfile rv rn = Inr p"
  from buildFormData_lookup(1) [OF p r]
  show sent: "map_of p ''skills'' = Some (Text (JSON_stringify (spec_skills (skills f))))"
    by (simp only: spec_skills_def js_split_comma_entries)
  have "parse_string_array (JSON_stringify (spec_skills (skills f))) =
      Some (spec_skills (skills f))"
    by (rule parse_stringify)
  with sent show "\<exists>t. map_of p ''skills'' = Some (Text t) \<and>
      parse_string_array t = Some (spec_skills (skills f))"
    by blast
  have example: \<open>JSON_stringify (spec_skills ''Teaching, Event Management,  Fundraising,, '') =
      ''["Teaching","Event Management","Fundraising"]''\<close>
    by code_simp
  show \<open>map_of p ''skills'' = Some (Text ''["Teaching","Event Management","Fundraising"]'')\<close>
    if "skills f = ''Teaching, Event Management,  Fundraising,, ''"
    using sent unfolding that example .
next
  show "parse_string_array (JSON_stringify xs) = Some xs"
    by (rule parse_stringify)
  show "\<forall>e \<in> set (spec_skills s).
      e \<noteq> [] \<and> CHR '','' \<notin> set e \<and> \<not> is_space (hd e) \<and> \<not> is_space (last e)"
    using spec_skills_entries by blast
  show "join_commas (comma_entries s) = s"
    using js_split_join [of s] by (simp only: js_split_comma_entries)
  show "spec_skills ''Teaching, Event Management,  Fundraising,, '' =
     [''Teaching'', ''Event Management'', ''Fundraising'']"
    by code_simp
qed

text \<open>
  Claim C2 for the default volunteer buffer with that skills text: the payload built, its
  \<open>skills\<close> entry and what that reads back to; and the \<open>skills\<close> entry for the loaded
  volunteer profile.
\<close>

theorem skills_serialised_witness:
  \<open>role (defaultForm\<lparr>skills := ''Teaching, Event Management,  Fundraising,, ''\<rparr>) = ''volunteer'' \<and>
   sendable (defaultForm\<lparr>skills := ''Teaching, Event Management,  Fundraising,, ''\<rparr>) \<and>
   buildFormData (defaultForm\<lparr>skills := ''Teaching, Event Management,  Fundraising,, ''\<rparr>)
       None None False False =
     Inr [(''role'', Text ''volunteer''), (''fullName'', Text []), (''email'', Text []),
          (''phone'', Text []), (''bio'', Text []), (''address'', Text []),
          (''dateOfBirth'', Text []), (''profileImageUrl'', Text []),
          (''skills'', Text ''["Teaching","Event Management","Fundraising"]'')] \<and>
   parse_string_array ''["Teaching","Event Management","Fundraising"]'' =
     Some [''Teaching'', ''Event Management'', ''Fundraising''] \<and>
   map_of (projr (buildFormData (form loaded_volunteer) None None False False)) ''skills'' =
     Some (Text ''["Teaching","Fundraising"]'')\<close>
proof -
  let ?f = "defaultForm\<lparr>skills := ''Teaching, Event Management,  Fundraising,, ''\<rparr>"
  let ?p = \<open>[(''role'', Text ''volunteer''), (''fullName'', Text []), (''email'', Text []),
          (''phone'', Text []), (''bio'', Text []), (''address'', Text []),
          (''dateOfBirth'', Text []), (''profileImageUrl'', Text []),
          (''skills'', Text ''["Teaching","Event Management","Fundraising"]'')]\<close>
  have payload: "buildFormData ?f None None False False = Inr ?p"
    by code_simp
  have r: "role ?f = ''volunteer''"
    and s: "sendable ?f"
    by (simp_all add: defaultForm_def sendable_def)
  have parsed: \<open>parse_string_array ''["Teaching","Event Management","Fundraising"]'' =
     Some [''Teaching'', ''Event Management'', ''Fundraising'']\<close>
    by code_simp
  have other: \<open>map_of (projr (buildFormData (form loaded_volunteer) None None False False))
      ''skills'' = Some (Text ''["Teaching","Fundraising"]'')\<close>
    unfolding loaded_volunteer_eq by code_simp
  from skills_serialised [of ?f None None False False] r s payload
  have "map_of ?p ''skills'' = Some (Text (JSON_stringify (spec_skills (skills ?f))))"
    by blast
  with r s payload parsed other show ?thesis
    by (intro conjI)
qed

section \<open>Choosing and removing a document\<close>

text \<open>
  Claim C4. For every selected file whose MIME type is none of \<open>application/pdf\<close>,
  \<open>application/msword\<close> and the \<open>.docx\<close> type, and whose lowercased name ends in none of
  \<open>.pdf\<close>, \<open>.doc\<close> and \<open>.docx\<close>, each of the two attachment handlers rejects it: the
  error becomes \<open>Please upload a PDF or DOC file only.\<close>, the value of the file input is
  cleared, and the buffer (with the slot's document reference), the staged file and the
  removal flag stay as they were. A file that passes the MIME check or the extension check
  is accepted: the error is cleared, the file is staged and the removal flag is cleared.
\<close>

theorem file_change_validates:
  assumes "first_file inp = Some file"
  shows
   "(file_type file \<notin> {''application/pdf'', ''application/msword'',
        ''application/vnd.openxmlformats-officedocument.wordprocessingml.document''} \<and>
     \<not> suffix ''.pdf'' (toLowerCase (file_name file)) \<and>
     \<not> suffix ''.doc'' (toLowerCase (file_name file)) \<and>
     \<not> suffix ''.docx'' (toLowerCase (file_name file))
     \<longrightarrow>
       handleVolunteerFileChange inp s =
         (s\<lparr>error := ''Please upload a PDF or DOC file only.''\<rparr>, inp\<lparr>input_value := []\<rparr>) \<and>
       handleNgoProofChange inp s =
         (s\<lparr>error := ''Please upload a PDF or DOC file only.''\<rparr>, inp\<lparr>input_value := []\<rparr>) \<and>
       form (fst (handleVolunteerFileChange inp s)) = form s \<and>
       volunteerDocumentFile (fst (handleVolunteerFileChange inp s)) = volunteerDocumentFile s \<and>
       removeVolunteerDocument (fst (handleVolunteerFileChange inp s)) = removeVolunteerDocument s \<and>
       form (fst (handleNgoProofChange inp s)) = form s \<and>
       ngoProofFile (fst (handleNgoProofChange inp s)) = ngoProofFile s \<and>
       removeNgoProofDocument (fst (handleNgoProofChange inp s)) = removeNgoProofDocument s) \<and>
    (file_type file \<in> {''application/pdf'', ''application/msword'',
        ''application/vnd.openxmlformats-officedocument.wordprocessingml.document''} \<or>
     suffix ''.pdf'' (toLowerCase (file_name file)) \<or>
     suffix ''.doc'' (toLowerCase (file_name file)) \<or>
     suffix ''.docx'' (toLowerCase (file_name file))
     \<longrightarrow>
       handleVolunteerFileChange inp s =
         (s\<lparr>error := [], volunteerDocumentFile := Some file, removeVolunteerDocument := False\<rparr>,
          inp) \<and>
       handleNgoProofChange inp s =
         (s\<lparr>error := [], ngoProofFile := Some file, removeNgoProofDocument := False\<rparr>, inp))"
proof -
  have allowed: "isAllowedDocument file \<longleftrightarrow>
    (file_type file \<in> {''application/pdf'', ''application/msword'',
        ''application/vnd.openxmlformats-officedocument.wordprocessingml.document''} \<or>
     suffix ''.pdf'' (toLowerCase (file_name file)) \<or>
     suffix ''.doc'' (toLowerCase (file_name file)) \<or>
     suffix ''.docx'' (toLowerCase (file_name file)))"
    by (simp add: isAllowedDocument_def allowedMimeTypes_def endsWith_def Let_def)
  have rejected:
    "handleVolunteerFileChange inp s =
         (s\<lparr>error := ''Please upload a PDF or DOC file only.''\<rparr>, inp\<lparr>input_value := []\<rparr>) \<and>
       handleNgoProofChange inp s =
         (s\<lparr>error := ''Please upload a PDF or DOC file only.''\<rparr>, inp\<lparr>input_value := []\<rparr>) \<and>
       form (fst (handleVolunteerFileChange inp s)) = form s \<and>
       volunteerDocumentFile (fst (handleVolunteerFileChange inp s)) = volunteerDocumentFile s \<and>
       removeVolunteerDocument (fst (handleVolunteerFileChange inp s)) = removeVolunteerDocument s \<and>
       form (fst (handleNgoProofChange inp s)) = form s \<and>
       ngoProofFile (fst (handleNgoProofChange inp s)) = ngoProofFile s \<and>
       removeNgoProofDocument (fst (handleNgoProofChange inp s)) = removeNgoProofDocument s"
    if "\<not> isAllowedDocument file"
    using that by (simp add: handleVolunteerFileChange_def handleNgoProofChange_def assms)
  have accepted:
    "handleVolunteerFileChange inp s =
         (s\<lparr>error := [], volunteerDocumentFile := Some file, removeVolunteerDocument := False\<rparr>,
          inp) \<and>
       handleNgoProofChange inp s =
         (s\<lparr>error := [], ngoProofFile := Some file, removeNgoProofDocument := False\<rparr>, inp)"
    if "isAllowedDocument file"
    using that by (simp add: handleVolunteerFileChange_def handleNgoProofChange_def assms)
  from allowed rejected accepted show ?thesis
    by blast
qed

text \<open>
  Claim C4 for \<open>resume.exe\<close> chosen on the loaded volunteer profile (rejected, the current
  document reference stays), and for \<open>resume.pdf\<close> chosen after that rejection (accepted,
  the error cleared).
\<close>

theorem file_change_validates_witness:
  "first_file (choose_file resume_exe) = Some resume_exe \<and>
   handleVolunteerFileChange (choose_file resume_exe) loaded_volunteer =
     (loaded_volunteer\<lparr>error := ''Please upload a PDF or DOC file only.''\<rparr>,
      \<lparr>input_files = Some [resume_exe], input_value = []\<rparr>) \<and>
   volunteerDocumentUrl (form (fst (handleVolunteerFileChange (choose_file resume_exe) loaded_volunteer)))
     = JStr ''/uploads/cv.pdf'' \<and>
   first_file (choose_file resume_pdf) = Some resume_pdf \<and>
   handleVolunteerFileChange (choose_file resume_pdf)
       (loaded_volunteer\<lparr>error := ''Please upload a PDF or DOC file only.''\<rparr>) =
     (loaded_volunteer\<lparr>volunteerDocumentFile := Some resume_pdf\<rparr>, choose_file resume_pdf)"
proof -
  have exe: "first_file (choose_file resume_exe) = Some resume_exe"
    and pdf: "first_file (choose_file resume_pdf) = Some resume_pdf"
    by (simp_all add: first_file_def choose_file_def)
  have exe_name: "toLowerCase (file_name resume_exe) = ''resume.exe''"
    and pdf_type: "file_type resume_pdf = ''application/pdf''"
    and exe_type: "file_type resume_exe = ''application/x-msdownload''"
    by (simp_all add: resume_exe_def resume_pdf_def toLowerCase_def lower_char_def)
  have no_suffix: "\<not> suffix ''.pdf'' ''resume.exe''" "\<not> suffix ''.doc'' ''resume.exe''"
    "\<not> suffix ''.docx'' ''resume.exe''"
    by (simp_all add: suffix_to_prefix)
  from file_change_validates [OF exe, of loaded_volunteer]
    file_change_validates [OF pdf, of "loaded_volunteer\<lparr>error := ''Please upload a PDF or DOC file only.''\<rparr>"]
    exe pdf
  show ?thesis
    by (simp add: exe_name pdf_type exe_type no_suffix choose_file_def loaded_volunteer_eq)
qed



section \<open>The course of a submission\<close>

lemma progress_fold:
  "fold onprogress ps s = s\<lparr>uploadProgress := last (uploadProgress s # ps)\<rparr>"
  by (induction ps arbitrary: s) (simp_all add: onprogress_def)

lemma refetch_form: "\<exists>f. refetch outcome s = s\<lparr>form := f\<rparr>"
proof (cases "refetch outcome s = s")
  case True
  then have "refetch outcome s = s\<lparr>form := form s\<rparr>" by simp
  then show ?thesis by (rule exI [where x = "form s"])
next
  case False
  then show ?thesis
    by (auto simp: refetch_def Let_def split: fetch_outcome.splits sum.splits if_splits)
qed

lemma apply_updated_form:
  assumes "apply_updated u s = Inr s'"
  shows "\<exists>f. s' = s\<lparr>form := f\<rparr>"
proof (cases "s' = s")
  case True
  then have "s' = s\<lparr>form := form s\<rparr>" by simp
  then show ?thesis by (rule exI [where x = "form s"])
next
  case False
  with assms show ?thesis
    by (auto simp: apply_updated_def split: sum.splits if_splits)
qed

lemma submit_payload_sendable: "sendable (form s) \<Longrightarrow> \<exists>p. submit_payload s = Inr p"
  unfolding submit_payload_def by (simp add: buildFormData_returns)

lemma refetch_fails_same: "refetch_fails outcome \<Longrightarrow> refetch outcome s = s"
  by (auto simp: refetch_fails_def refetch_def is_profile_object_def Let_def readResponseJson_def
      split: fetch_outcome.splits option.splits sum.splits)

lemma apply_updated_object:
  "is_profile_object u \<Longrightarrow> mapUserToForm u = Inr f \<Longrightarrow> apply_updated u s = Inr (s\<lparr>form := f\<rparr>)"
  by (auto simp: apply_updated_def is_profile_object_def)

lemma apply_updated_other: "\<not> is_profile_object u \<Longrightarrow> apply_updated u s = Inr s"
  by (auto simp: apply_updated_def is_profile_object_def)

text \<open>The three ways a stretch ends a submission, and the two ways it goes on.\<close>

lemma handleSubmit_begin_cases:
  "(\<exists>e. handleSubmit_begin s =
      (s\<lparr>error := message e, success := [], saving := False, uploadProgress := 0\<rparr>,
       NoSubmission)) \<or>
   handleSubmit_begin s =
      (s\<lparr>error := [], success := [], saving := True, uploadProgress := 0\<rparr>, AwaitingSave)"
proof (cases "submit_payload s")
  case (Inl e)
  then have "handleSubmit_begin s =
      (s\<lparr>error := message e, success := [], saving := False, uploadProgress := 0\<rparr>,
       NoSubmission)"
    by (simp add: handleSubmit_begin_def submit_end_def submit_start_def)
  then have "\<exists>e. handleSubmit_begin s =
      (s\<lparr>error := message e, success := [], saving := False, uploadProgress := 0\<rparr>,
       NoSubmission)"
    by (rule exI [where x = e])
  then show ?thesis by (rule disjI1)
next
  case (Inr p)
  then have "handleSubmit_begin s =
      (s\<lparr>error := [], success := [], saving := True, uploadProgress := 0\<rparr>, AwaitingSave)"
    by (simp add: handleSubmit_begin_def submit_start_def)
  then show ?thesis by (rule disjI2)
qed

lemma handleSubmit_loaded_cases:
  "(\<exists>e. handleSubmit_loaded outcome s =
      (s\<lparr>error := message e, saving := False, uploadProgress := 0\<rparr>, NoSubmission)) \<or>
   (\<exists>f. handleSubmit_loaded outcome s = (s\<lparr>form := f\<rparr>, AwaitingRefetch))"
proof -
  have stop: "\<exists>e. handleSubmit_loaded outcome s =
      (s\<lparr>error := message e, saving := False, uploadProgress := 0\<rparr>, NoSubmission)"
    if "handleSubmit_loaded outcome s = (submit_end (Some e) s, NoSubmission)" for e
  proof -
    from that have "handleSubmit_loaded outcome s =
      (s\<lparr>error := message e, saving := False, uploadProgress := 0\<rparr>, NoSubmission)"
      by (simp add: submit_end_def)
    then show ?thesis by (rule exI [where x = e])
  qed
  show ?thesis
  proof (cases outcome)
    case XhrError
    then have "handleSubmit_loaded outcome s =
        (submit_end (Some (Error ''Network error while updating profile.'')) s, NoSubmission)"
      by (simp add: handleSubmit_loaded_def)
    from stop [OF this] show ?thesis by (rule disjI1)
  next
    case (XhrLoad response)
    show ?thesis
    proof (cases "xhr_ok response")
      case False
      with XhrLoad have "handleSubmit_loaded outcome s =
          (submit_end (Some (save_failure response)) s, NoSubmission)"
        by (simp add: handleSubmit_loaded_def)
      from stop [OF this] show ?thesis by (rule disjI1)
    next
      case True
      show ?thesis
      proof (cases "apply_updated (parse_text response) s")
        case (Inl e)
        with XhrLoad True have "handleSubmit_loaded outcome s =
            (submit_end (Some e) s, NoSubmission)"
          by (simp add: handleSubmit_loaded_def)
        from stop [OF this] show ?thesis by (rule disjI1)
      next
        case (Inr s2)
        from apply_updated_form [OF Inr] obtain f where "s2 = s\<lparr>form := f\<rparr>" by blast
        with XhrLoad True Inr have "handleSubmit_loaded outcome s = (s\<lparr>form := f\<rparr>, AwaitingRefetch)"
          by (simp add: handleSubmit_loaded_def)
        then have "\<exists>f. handleSubmit_loaded outcome s = (s\<lparr>form := f\<rparr>, AwaitingRefetch)"
          by (rule exI [where x = f])
        then show ?thesis by (rule disjI2)
      qed
    qed
  qed
qed

lemma handleSubmit_refetched_form:
  "\<exists>f. handleSubmit_refetched outcome s =
     s\<lparr>form := f,
       volunteerDocumentFile := None, ngoProofFile := None,
       removeVolunteerDocument := False, removeNgoProofDocument := False,
       success := ''Your profile has been updated successfully.'',
       toast := ''Profile updated successfully.'',
       saving := False, uploadProgress := 0\<rparr>"
proof -
  from refetch_form [of outcome s] obtain f where "refetch outcome s = s\<lparr>form := f\<rparr>" by blast
  then have "handleSubmit_refetched outcome s =
     s\<lparr>form := f,
       volunteerDocumentFile := None, ngoProofFile := None,
       removeVolunteerDocument := False, removeNgoProofDocument := False,
       success := ''Your profile has been updated successfully.'',
       toast := ''Profile updated successfully.'',
       saving := False, uploadProgress := 0\<rparr>"
    by (simp add: handleSubmit_refetched_def submit_end_def)
  then show ?thesis by (rule exI [where x = f])
qed

lemma handleSubmit_rejected:
  assumes "sendable (form s)" and "env_save env = XhrLoad r" and "\<not> xhr_ok r"
  shows "handleSubmit env s =
    s\<lparr>error := message (save_failure r), success := [], saving := False, uploadProgress := 0\<rparr>"
proof -
  from submit_payload_sendable [OF assms(1)] obtain p where "submit_payload s = Inr p" ..
  with assms(2,3) show ?thesis
    by (simp add: handleSubmit_def handleSubmit_begin_def handleSubmit_loaded_def progress_fold
        submit_start_def submit_end_def)
qed

lemma handleSubmit_saved:
  assumes "sendable (form s)" and "env_save env = XhrLoad r" and "xhr_ok r"
    and "apply_updated (parse_text r)
           ((submit_start s)\<lparr>uploadProgress := last (0 # env_progress env)\<rparr>) = Inr s2"
  shows "handleSubmit env s =
    (refetch (env_refetch env) s2)
     \<lparr>volunteerDocumentFile := None, ngoProofFile := None,
      removeVolunteerDocument := False, removeNgoProofDocument := False,
      success := ''Your profile has been updated successfully.'',
      toast := ''Profile updated successfully.'',
      saving := False, uploadProgress := 0\<rparr>"
proof -
  from submit_payload_sendable [OF assms(1)] obtain p where p: "submit_payload s = Inr p" ..
  have "uploadProgress (submit_start s) = 0"
    by (simp add: submit_start_def)
  with p assms(2,3,4) show ?thesis
    by (simp add: handleSubmit_def handleSubmit_begin_def handleSubmit_loaded_def progress_fold
        handleSubmit_refetched_def submit_end_def)
qed

lemma handleSubmit_cases:
  "(\<exists>e. handleSubmit env s =
      s\<lparr>error := message e, success := [], saving := False, uploadProgress := 0\<rparr>) \<or>
   (\<exists>f. handleSubmit env s =
      s\<lparr>form := f, error := [], saving := False, uploadProgress := 0,
        volunteerDocumentFile := None, ngoProofFile := None,
        removeVolunteerDocument := False, removeNgoProofDocument := False,
        success := ''Your profile has been updated successfully.'',
        toast := ''Profile updated successfully.''\<rparr>)"
proof -
  let ?s0 = "s\<lparr>error := [], success := [], saving := True, uploadProgress := 0\<rparr>"
  let ?s1 = "fold onprogress (env_progress env) ?s0"
  have s1: "?s1 = s\<lparr>error := [], success := [], saving := True,
      uploadProgress := last (0 # env_progress env)\<rparr>"
    by (simp add: progress_fold)
  from handleSubmit_begin_cases [of s] show ?thesis
  proof
    assume "\<exists>e. handleSubmit_begin s =
      (s\<lparr>error := message e, success := [], saving := False, uploadProgress := 0\<rparr>,
       NoSubmission)"
    then obtain e where "handleSubmit_begin s =
      (s\<lparr>error := message e, success := [], saving := False, uploadProgress := 0\<rparr>,
       NoSubmission)" ..
    then have "handleSubmit env s =
      s\<lparr>error := message e, success := [], saving := False, uploadProgress := 0\<rparr>"
      by (simp add: handleSubmit_def)
    then have "\<exists>e. handleSubmit env s =
      s\<lparr>error := message e, success := [], saving := False, uploadProgress := 0\<rparr>"
      by (rule exI [where x = e])
    then show ?thesis by (rule disjI1)
  next
    assume b: "handleSubmit_begin s = (?s0, AwaitingSave)"
    from handleSubmit_loaded_cases [of "env_save env" ?s1] show ?thesis
    proof
      assume "\<exists>e. handleSubmit_loaded (env_save env) ?s1 =
        (?s1\<lparr>error := message e, saving := False, uploadProgress := 0\<rparr>, NoSubmission)"
      then obtain e where "handleSubmit_loaded (env_save env) ?s1 =
        (?s1\<lparr>error := message e, saving := False, uploadProgress := 0\<rparr>, NoSubmission)" ..
      with b have "handleSubmit env s =
          ?s1\<lparr>error := message e, saving := False, uploadProgress := 0\<rparr>"
        by (simp add: handleSubmit_def)
      then have "handleSubmit env s =
        s\<lparr>error := message e, success := [], saving := False, uploadProgress := 0\<rparr>"
        unfolding s1 by simp
      then have "\<exists>e. handleSubmit env s =
        s\<lparr>error := message e, success := [], saving := False, uploadProgress := 0\<rparr>"
        by (rule exI [where x = e])
      then show ?thesis by (rule disjI1)
    next
      assume "\<exists>f. handleSubmit_loaded (env_save env) ?s1 = (?s1\<lparr>form := f\<rparr>, AwaitingRefetch)"
      then obtain f where l:
        "handleSubmit_loaded (env_save env) ?s1 = (?s1\<lparr>form := f\<rparr>, AwaitingRefetch)" ..
      from handleSubmit_refetched_form [of "env_refetch env" "?s1\<lparr>form := f\<rparr>"]
      obtain g where "handleSubmit_refetched (env_refetch env) (?s1\<lparr>form := f\<rparr>) =
         ?s1\<lparr>form := f\<rparr>\<lparr>form := g,
           volunteerDocumentFile := None, ngoProofFile := None,
           removeVolunteerDocument := False, removeNgoProofDocument := False,
           success := ''Your profile has been updated successfully.'',
           toast := ''Profile updated successfully.'',
           saving := False, uploadProgress := 0\<rparr>" by blast
      with b l have "handleSubmit env s =
         ?s1\<lparr>form := f\<rparr>\<lparr>form := g,
           volunteerDocumentFile := None, ngoProofFile := None,
           removeVolunteerDocument := False, removeNgoProofDocument := False,
           success := ''Your profile has been updated successfully.'',
           toast := ''Profile updated successfully.'',
           saving := False, uploadProgress := 0\<rparr>"
        by (simp add: handleSubmit_def)
      then have "handleSubmit env s =
        s\<lparr>form := g, error := [], saving := False, uploadProgress := 0,
          volunteerDocumentFile := None, ngoProofFile := None,
          removeVolunteerDocument := False, removeNgoProofDocument := False,
          success := ''Your profile has been updated successfully.'',
          toast := ''Profile updated successfully.''\<rparr>"
        unfolding s1 by simp
      then have "\<exists>f. handleSubmit env s =
        s\<lparr>form := f, error := [], saving := False, uploadProgress := 0,
          volunteerDocumentFile := None, ngoProofFile := None,
          removeVolunteerDocument := False, removeNgoProofDocument := False,
          success := ''Your profile has been updated successfully.'',
          toast := ''Profile updated successfully.''\<rparr>"
        by (rule exI [where x = g])
      then show ?thesis by (rule disjI2)
    qed
  qed
qed

text \<open>
  Claim C3, as the code has it. For every save request that was sent and completes with a
  status outside 200-299: if the lowercased content type includes \<open>text/html\<close>, the error
  is \<open>API not reachable. Set VITE_API_BASE_URL to your backend URL.\<close> whatever the body;
  otherwise, if the body parses as a JSON object whose \<open>message\<close> is a non-empty string,
  that string is the error; otherwise the error is
  \<open>Profile update failed. Please try again.\<close>. The success message stays empty. Whatever
  other handlers ran while the request was in flight, the stretch that receives the
  response sets that same error and ends the submission.
\<close>

theorem save_failure_shown:
  assumes "sendable (form s)" and "env_save env = XhrLoad r" and "\<not> xhr_ok r"
  shows
   "(js_includes (toLowerCase (header_or_empty (xhr_contentType r))) ''text/html'' \<longrightarrow>
       error (handleSubmit env s) =
         ''API not reachable. Set VITE_API_BASE_URL to your backend URL.'') \<and>
    (\<not> js_includes (toLowerCase (header_or_empty (xhr_contentType r))) ''text/html'' \<and>
     parse_text r = JObj kvs \<and> map_of kvs ''message'' = Some (JStr m) \<and> m \<noteq> [] \<longrightarrow>
       error (handleSubmit env s) = m) \<and>
    (\<not> js_includes (toLowerCase (header_or_empty (xhr_contentType r))) ''text/html'' \<and>
     \<not> (\<exists>kvs m. parse_text r = JObj kvs \<and> map_of kvs ''message'' = Some (JStr m) \<and> m \<noteq> [])
     \<longrightarrow> error (handleSubmit env s) = ''Profile update failed. Please try again.'') \<and>
    success (handleSubmit env s) = [] \<and>
    handleSubmit_loaded (XhrLoad r) t =
      (t\<lparr>error := error (handleSubmit env s), saving := False, uploadProgress := 0\<rparr>,
       NoSubmission)"
proof -
  have shown: "error (handleSubmit env s) = message (save_failure r)"
    and none: "success (handleSubmit env s) = []"
    using handleSubmit_rejected [OF assms] by simp_all
  have html: "message (save_failure r) =
      ''API not reachable. Set VITE_API_BASE_URL to your backend URL.''"
    if "js_includes (toLowerCase (header_or_empty (xhr_contentType r))) ''text/html''"
    using that by (simp add: save_failure_def)
  have server: "message (save_failure r) = m"
    if "\<not> js_includes (toLowerCase (header_or_empty (xhr_contentType r))) ''text/html''"
      "parse_text r = JObj kvs" "map_of kvs ''message'' = Some (JStr m)" "m \<noteq> []"
    using that by (simp add: save_failure_def serverMessage_def)
  have generic: "message (save_failure r) = ''Profile update failed. Please try again.''"
    if "\<not> js_includes (toLowerCase (header_or_empty (xhr_contentType r))) ''text/html''"
      "\<not> (\<exists>kvs m. parse_text r = JObj kvs \<and> map_of kvs ''message'' = Some (JStr m) \<and> m \<noteq> [])"
    using that
    by (cases "parse_text r")
       (auto simp: save_failure_def serverMessage_def split: option.splits jsval.splits)
  have stretch: "handleSubmit_loaded (XhrLoad r) t =
      (t\<lparr>error := error (handleSubmit env s), saving := False, uploadProgress := 0\<rparr>,
       NoSubmission)"
    unfolding shown using assms(3) by (simp add: handleSubmit_loaded_def submit_end_def)
  from shown none html server generic stretch show ?thesis by simp
qed

text \<open>
  Claim C3 for a 400 with the body \<open>{"message":"Email already in use"}\<close> and for a 502
  with content type \<open>text/html\<close>.
\<close>

theorem save_failure_shown_witness:
  "sendable (form loaded_volunteer) \<and> \<not> xhr_ok save_400 \<and> \<not> xhr_ok save_502 \<and>
   error (handleSubmit (answered save_400) loaded_volunteer) = ''Email already in use'' \<and>
   error (handleSubmit (answered save_502) loaded_volunteer) =
     ''API not reachable. Set VITE_API_BASE_URL to your backend URL.''"
proof -
  have s: "sendable (form loaded_volunteer)"
    by (simp add: loaded_volunteer_eq sendable_def)
  have a400: "env_save (answered save_400) = XhrLoad save_400"
    and a502: "env_save (answered save_502) = XhrLoad save_502"
    by (simp_all add: answered_def)
  have n400: "\<not> xhr_ok save_400" and n502: "\<not> xhr_ok save_502"
    by (simp_all add: xhr_ok_def save_400_def save_502_def)
  have html: "js_includes (toLowerCase (header_or_empty (xhr_contentType save_502))) ''text/html''"
    "\<not> js_includes (toLowerCase (header_or_empty (xhr_contentType save_400))) ''text/html''"
    by code_simp+
  have body: "parse_text save_400 = JObj [(''message'', JStr ''Email already in use'')]"
    "map_of [(''message'', JStr ''Email already in use'')] ''message'' =
       Some (JStr ''Email already in use'')"
    by (simp_all add: parse_text_def save_400_def)
  from save_failure_shown [OF s a400 n400,
      of "[(''message'', JStr ''Email already in use'')]" "''Email already in use''"]
    save_failure_shown [OF s a502 n502] s n400 n502 html body
  show ?thesis by simp
qed

text \<open>
  Claim C3 as written shows the \<open>message\<close> of the body whenever it is a string. For the
  body \<open>{"message":""}\<close> the message is the empty string, and the error shown is the
  generic one: the code throws the server's message only when it is truthy.
\<close>

theorem save_failure_blank_message:
  "parse_text save_400_blank = JObj [(''message'', JStr [])] \<and>
   error (handleSubmit (answered save_400_blank) loaded_volunteer) =
     ''Profile update failed. Please try again.''"
proof -
  have "error (handleSubmit (answered save_400_blank) loaded_volunteer) =
     ''Profile update failed. Please try again.''"
    unfolding loaded_volunteer_eq by code_simp
  then show ?thesis
    by (simp add: parse_text_def save_400_blank_def)
qed

text \<open>
  Claim C8. For every submission whose save request was sent and answered with a status in
  200-299, and whose follow-up read was reached (mapping the save response into the buffer
  did not throw): if the follow-up read fails, by a network error, a status that is not a
  success or a malformed body, the failure is ignored. No error is set; the buffer is the
  mapped save response if that was a well-formed object, and the buffer as it was
  otherwise; the selected files and the removal flags are cleared; and the success message
  and the toast are shown. Whatever other handlers ran in between, the stretch that
  receives the save response changes only the buffer, in that way, and the stretch that
  follows the failed read leaves the buffer and the error as they are, clears the files
  and the flags and shows the success message and the toast.
\<close>

theorem refetch_failure_ignored:
  assumes "sendable (form s)" and "env_save env = XhrLoad r" and "xhr_ok r"
    and "is_profile_object (parse_text r) \<longrightarrow> mapUserToForm (parse_text r) = Inr f"
    and "refetch_fails (env_refetch env)"
  shows "handleSubmit env s =
    s\<lparr>form := (if is_profile_object (parse_text r) then f else form s),
      error := [],
      success := ''Your profile has been updated successfully.'',
      toast := ''Profile updated successfully.'',
      volunteerDocumentFile := None, ngoProofFile := None,
      removeVolunteerDocument := False, removeNgoProofDocument := False,
      saving := False, uploadProgress := 0\<rparr> \<and>
   handleSubmit_loaded (XhrLoad r) t =
     (t\<lparr>form := (if is_profile_object (parse_text r) then f else form t)\<rparr>, AwaitingRefetch) \<and>
   handleSubmit_refetched (env_refetch env) t =
     t\<lparr>volunteerDocumentFile := None, ngoProofFile := None,
       removeVolunteerDocument := False, removeNgoProofDocument := False,
       success := ''Your profile has been updated successfully.'',
       toast := ''Profile updated successfully.'',
       saving := False, uploadProgress := 0\<rparr>"
proof (intro conjI)
  show "handleSubmit env s =
    s\<lparr>form := (if is_profile_object (parse_text r) then f else form s),
      error := [],
      success := ''Your profile has been updated successfully.'',
      toast := ''Profile updated successfully.'',
      volunteerDocumentFile := None, ngoProofFile := None,
      removeVolunteerDocument := False, removeNgoProofDocument := False,
      saving := False, uploadProgress := 0\<rparr>"
  proof (cases "is_profile_object (parse_text r)")
    case True
    with assms(4) have "mapUserToForm (parse_text r) = Inr f" by simp
    with True have "apply_updated (parse_text r)
        ((submit_start s)\<lparr>uploadProgress := last (0 # env_progress env)\<rparr>) =
        Inr ((submit_start s)\<lparr>uploadProgress := last (0 # env_progress env), form := f\<rparr>)"
      by (rule apply_updated_object)
    from handleSubmit_saved [OF assms(1-3) this] True show ?thesis
      by (simp add: refetch_fails_same [OF assms(5)] submit_start_def)
  next
    case False
    then have "apply_updated (parse_text r)
        ((submit_start s)\<lparr>uploadProgress := last (0 # env_progress env)\<rparr>) =
        Inr ((submit_start s)\<lparr>uploadProgress := last (0 # env_progress env)\<rparr>)"
      by (rule apply_updated_other)
    from handleSubmit_saved [OF assms(1-3) this] False show ?thesis
      by (simp add: refetch_fails_same [OF assms(5)] submit_start_def)
  qed
  show "handleSubmit_loaded (XhrLoad r) t =
     (t\<lparr>form := (if is_profile_object (parse_text r) then f else form t)\<rparr>, AwaitingRefetch)"
  proof (cases "is_profile_object (parse_text r)")
    case True
    with assms(4) have "mapUserToForm (parse_text r) = Inr f" by simp
    with True have "apply_updated (parse_text r) t = Inr (t\<lparr>form := f\<rparr>)"
      by (rule apply_updated_object)
    with True assms(3) show ?thesis
      by (simp add: handleSubmit_loaded_def)
  next
    case False
    then have "apply_updated (parse_text r) t = Inr t"
      by (rule apply_updated_other)
    with False assms(3) show ?thesis
      by (simp add: handleSubmit_loaded_def)
  qed
  show "handleSubmit_refetched (env_refetch env) t =
     t\<lparr>volunteerDocumentFile := None, ngoProofFile := None,
       removeVolunteerDocument := False, removeNgoProofDocument := False,
       success := ''Your profile has been updated successfully.'',
       toast := ''Profile updated successfully.'',
       saving := False, uploadProgress := 0\<rparr>"
    by (simp add: handleSubmit_refetched_def submit_end_def refetch_fails_same [OF assms(5)])
qed

text \<open>
  Claim C8 for the loaded volunteer profile with \<open>resume.pdf\<close> selected: the save is
  answered with a 200 and the updated profile, the follow-up read is rejected.
\<close>

theorem refetch_failure_ignored_witness:
  "sendable (form (fst (handleVolunteerFileChange (choose_file resume_pdf) loaded_volunteer))) \<and>
   xhr_ok save_200 \<and> is_profile_object (parse_text save_200) \<and>
   refetch_fails (env_refetch (answered save_200)) \<and>
   handleSubmit (answered save_200)
       (fst (handleVolunteerFileChange (choose_file resume_pdf) loaded_volunteer)) =
     loaded_volunteer
       \<lparr>form := defaultForm\<lparr>fullName := JStr ''Asha R.''\<rparr>,
        success := ''Your profile has been updated successfully.'',
        toast := ''Profile updated successfully.''\<rparr>"
proof -
  let ?s = "fst (handleVolunteerFileChange (choose_file resume_pdf) loaded_volunteer)"
  have st: "?s = loaded_volunteer\<lparr>volunteerDocumentFile := Some resume_pdf\<rparr>"
    by (simp add: handleVolunteerFileChange_def first_file_def choose_file_def
        isAllowedDocument_def allowedMimeTypes_def resume_pdf_def loaded_volunteer_eq)
  have s: "sendable (form ?s)"
    unfolding st by (simp add: loaded_volunteer_eq sendable_def)
  have a: "env_save (answered save_200) = XhrLoad save_200"
    and f: "refetch_fails (env_refetch (answered save_200))"
    by (simp_all add: answered_def refetch_fails_def)
  have ok: "xhr_ok save_200"
    by (simp add: xhr_ok_def save_200_def)
  have body: "parse_text save_200 =
      JObj [(''role'', JStr ''volunteer''), (''fullName'', JStr ''Asha R.'')]"
    by (simp add: parse_text_def save_200_def)
  have obj: "is_profile_object (parse_text save_200)"
    by (simp add: body is_profile_object_def)
  have mapped: "mapUserToForm (parse_text save_200) = Inr (defaultForm\<lparr>fullName := JStr ''Asha R.''\<rparr>)"
    unfolding body
    by (simp add: mapUserToForm_def normalizeRole_def js_or_def toLowerCase_def lower_char_def
        defaultForm_def)
  have imp: "is_profile_object (parse_text save_200) \<longrightarrow>
      mapUserToForm (parse_text save_200) = Inr (defaultForm\<lparr>fullName := JStr ''Asha R.''\<rparr>)"
    using mapped by simp
  from refetch_failure_ignored [OF s a ok imp f] obj
  have "handleSubmit (answered save_200) ?s =
      ?s\<lparr>form := defaultForm\<lparr>fullName := JStr ''Asha R.''\<rparr>,
        error := [],
        success := ''Your profile has been updated successfully.'',
        toast := ''Profile updated successfully.'',
        volunteerDocumentFile := None, ngoProofFile := None,
        removeVolunteerDocument := False, removeNgoProofDocument := False,
        saving := False, uploadProgress := 0\<rparr>"
    by simp
  also have "\<dots> = loaded_volunteer
       \<lparr>form := defaultForm\<lparr>fullName := JStr ''Asha R.''\<rparr>,
        success := ''Your profile has been updated successfully.'',
        toast := ''Profile updated successfully.''\<rparr>"
    unfolding st by (simp add: loaded_volunteer_eq)
  finally show ?thesis
    using s ok obj f by simp
qed

section \<open>The reachable states\<close>

lemma load_slots: "slots_consistent (loadCurrentProfile mounted outcome initial_state) NoSubmission"
  by (auto simp: slots_consistent_def loadCurrentProfile_def load_try_def Let_def initial_state_def
      split: fetch_outcome.splits sum.splits if_splits)

lemma edit_slots: "slots_consistent s sub \<Longrightarrow> slots_consistent (handleChange n v s) sub"
  by (cases n) (simp_all add: slots_consistent_def handleChange_def)

lemma file_slots:
  "slots_consistent s sub \<Longrightarrow> slots_consistent (fst (handleVolunteerFileChange inp s)) sub"
  "slots_consistent s sub \<Longrightarrow> slots_consistent (fst (handleNgoProofChange inp s)) sub"
  by (auto simp: slots_consistent_def handleVolunteerFileChange_def handleNgoProofChange_def
      split: option.splits)

lemma remove_slots:
  "slots_consistent s sub \<Longrightarrow> slots_consistent (handleRemoveVolunteerFile s) sub"
  "slots_consistent s sub \<Longrightarrow> slots_consistent (handleRemoveNgoProofFile s) sub"
  by (simp_all add: slots_consistent_def handleRemoveVolunteerFile_def
      handleRemoveNgoProofFile_def)

lemma begin_slots:
  "slots_consistent s NoSubmission \<Longrightarrow>
   slots_consistent (fst (handleSubmit_begin s)) (snd (handleSubmit_begin s))"
  using handleSubmit_begin_cases [of s] by (auto simp: slots_consistent_def)

lemma loaded_slots:
  "slots_consistent s AwaitingSave \<Longrightarrow>
   slots_consistent (fst (handleSubmit_loaded outcome s)) (snd (handleSubmit_loaded outcome s))"
  using handleSubmit_loaded_cases [of outcome s] by (auto simp: slots_consistent_def)

lemma refetched_slots: "slots_consistent (handleSubmit_refetched outcome s) NoSubmission"
  using handleSubmit_refetched_form [of outcome s] by (auto simp: slots_consistent_def)

lemma reachable_consistent: "reachable s sub \<Longrightarrow> slots_consistent s sub"
proof (induction rule: reachable.induct)
  case start
  show ?case by (simp add: slots_consistent_def initial_state_def)
next
  case (load mounted outcome)
  show ?case by (rule load_slots)
next
  case (edit s sub n v)
  then show ?case by (simp add: edit_slots)
next
  case (volunteer_file s sub inp)
  then show ?case by (simp add: file_slots)
next
  case (ngo_file s sub inp)
  then show ?case by (simp add: file_slots)
next
  case (volunteer_remove s sub)
  then show ?case by (simp add: remove_slots)
next
  case (ngo_remove s sub)
  then show ?case by (simp add: remove_slots)
next
  case (toast_expired s sub)
  then show ?case by (simp add: slots_consistent_def)
next
  case (submit_begin s)
  then show ?case by (simp add: begin_slots)
next
  case (submit_progress s percent)
  then show ?case by (simp add: slots_consistent_def onprogress_def)
next
  case (submit_loaded s outcome)
  then show ?case by (simp add: loaded_slots)
next
  case (submit_refetched s outcome)
  show ?case by (rule refetched_slots)
qed

lemma load_messages:
  "messages_in_flight (loadCurrentProfile mounted outcome initial_state) NoSubmission"
  by (auto simp: messages_in_flight_def loadCurrentProfile_def load_try_def Let_def
      initial_state_def split: fetch_outcome.splits sum.splits if_splits)

lemma edit_messages: "messages_in_flight s sub \<Longrightarrow> messages_in_flight (handleChange n v s) sub"
  by (simp add: messages_in_flight_def handleChange_def)

lemma file_messages:
  "messages_in_flight s sub \<Longrightarrow> messages_in_flight (fst (handleVolunteerFileChange inp s)) sub"
  "messages_in_flight s sub \<Longrightarrow> messages_in_flight (fst (handleNgoProofChange inp s)) sub"
  by (auto simp: messages_in_flight_def handleVolunteerFileChange_def handleNgoProofChange_def
      split: option.splits if_splits)

lemma remove_messages:
  "messages_in_flight s sub \<Longrightarrow> messages_in_flight (handleRemoveVolunteerFile s) sub"
  "messages_in_flight s sub \<Longrightarrow> messages_in_flight (handleRemoveNgoProofFile s) sub"
  by (simp_all add: messages_in_flight_def handleRemoveVolunteerFile_def
      handleRemoveNgoProofFile_def)

lemma begin_messages:
  "messages_in_flight (fst (handleSubmit_begin s)) (snd (handleSubmit_begin s))"
  using handleSubmit_begin_cases [of s] by (auto simp: messages_in_flight_def)

lemma loaded_messages:
  "messages_in_flight s AwaitingSave \<Longrightarrow>
   messages_in_flight (fst (handleSubmit_loaded outcome s)) (snd (handleSubmit_loaded outcome s))"
  using handleSubmit_loaded_cases [of outcome s] by (auto simp: messages_in_flight_def)

lemma refetched_messages: "messages_in_flight (handleSubmit_refetched outcome s) NoSubmission"
  using handleSubmit_refetched_form [of outcome s] by (auto simp: messages_in_flight_def)

lemma reachable_messages: "reachable s sub \<Longrightarrow> messages_in_flight s sub"
proof (induction rule: reachable.induct)
  case start
  show ?case by (simp add: messages_in_flight_def initial_state_def)
next
  case (load mounted outcome)
  show ?case by (rule load_messages)
next
  case (edit s sub n v)
  then show ?case by (simp add: edit_messages)
next
  case (volunteer_file s sub inp)
  then show ?case by (simp add: file_messages)
next
  case (ngo_file s sub inp)
  then show ?case by (simp add: file_messages)
next
  case (volunteer_remove s sub)
  then show ?case by (simp add: remove_messages)
next
  case (ngo_remove s sub)
  then show ?case by (simp add: remove_messages)
next
  case (toast_expired s sub)
  then show ?case by (simp add: messages_in_flight_def)
next
  case (submit_begin s)
  show ?case by (rule begin_messages)
next
  case (submit_progress s percent)
  then show ?case by (simp add: messages_in_flight_def onprogress_def)
next
  case (submit_loaded s outcome)
  then show ?case by (simp add: loaded_messages)
next
  case (submit_refetched s outcome)
  show ?case by (rule refetched_messages)
qed

lemma loaded_volunteer_reachable: "reachable loaded_volunteer NoSubmission"
  unfolding loaded_volunteer_def by (rule reachable.load)

lemma loaded_volunteer_section: "volunteer_section loaded_volunteer"
  by (simp add: volunteer_section_def loaded_volunteer_eq)

lemma sending_volunteer_eq:
  "handleSubmit_begin loaded_volunteer = (loaded_volunteer\<lparr>saving := True\<rparr>, AwaitingSave)"
  unfolding loaded_volunteer_eq by code_simp

lemma sending_volunteer_state: "sending_volunteer = loaded_volunteer\<lparr>saving := True\<rparr>"
  by (simp add: sending_volunteer_def sending_volunteer_eq)

lemma sending_volunteer_reachable: "reachable sending_volunteer AwaitingSave"
proof -
  have "\<not> loading loaded_volunteer" "\<not> saving loaded_volunteer"
    by (simp_all add: loaded_volunteer_eq)
  with loaded_volunteer_reachable
  have "reachable (fst (handleSubmit_begin loaded_volunteer)) (snd (handleSubmit_begin loaded_volunteer))"
    by (rule reachable.submit_begin)
  then show ?thesis
    by (simp add: sending_volunteer_def sending_volunteer_eq)
qed

lemma sending_rejected_eq:
  "sending_rejected =
     loaded_volunteer\<lparr>saving := True, error := ''Please upload a PDF or DOC file only.''\<rparr>"
  unfolding sending_rejected_def sending_volunteer_def sending_volunteer_eq
  unfolding loaded_volunteer_eq by code_simp

lemma sending_rejected_reachable: "reachable sending_rejected AwaitingSave"
proof -
  have "volunteer_section sending_volunteer"
    unfolding sending_volunteer_state by (simp add: volunteer_section_def loaded_volunteer_eq)
  with sending_volunteer_reachable show ?thesis
    unfolding sending_rejected_def by (rule reachable.volunteer_file)
qed

lemma saved_rejected_eq:
  "handleSubmit_loaded (XhrLoad save_200) sending_rejected =
     (loaded_volunteer\<lparr>form := defaultForm\<lparr>fullName := JStr ''Asha R.''\<rparr>, saving := True,
        error := ''Please upload a PDF or DOC file only.''\<rparr>, AwaitingRefetch)"
  unfolding sending_rejected_eq unfolding loaded_volunteer_eq by code_simp

lemma saved_rejected_reachable: "reachable saved_rejected AwaitingRefetch"
  using reachable.submit_loaded [OF sending_rejected_reachable, of "XhrLoad save_200"]
  by (simp add: saved_rejected_def saved_rejected_eq)

lemma done_rejected_eq:
  "done_rejected =
     loaded_volunteer\<lparr>form := defaultForm\<lparr>fullName := JStr ''Asha R.''\<rparr>,
        error := ''Please upload a PDF or DOC file only.'',
        success := ''Your profile has been updated successfully.'',
        toast := ''Profile updated successfully.''\<rparr>"
  unfolding done_rejected_def saved_rejected_def saved_rejected_eq
  unfolding loaded_volunteer_eq by code_simp

text \<open>
  Claim C9, as the code has it. For every submission attempt, the opening statements
  clear the error and the success message and set the upload progress to zero, and the
  upload progress is zero again when the attempt completes, whatever the outcome. While
  the attempt is in flight the success message stays empty, and the only error that can
  appear is the one of a file selection rejected in the meantime. An attempt that fails
  leaves the success message as it was, hence empty; an attempt that succeeds sets the
  success message and leaves the error as it was, hence empty unless a file selection was
  rejected while the attempt was in flight. An attempt during which no other handler runs
  does not depend on the messages of earlier attempts and completes with at most one of
  the two messages non-empty.
\<close>

theorem submission_messages:
  "(reachable s sub \<and> sub \<noteq> NoSubmission \<longrightarrow>
      success s = [] \<and> (error s = [] \<or> error s = ''Please upload a PDF or DOC file only.'')) \<and>
   error (submit_start s) = [] \<and> success (submit_start s) = [] \<and>
   uploadProgress (submit_start s) = 0 \<and>
   (snd (handleSubmit_begin s) = AwaitingSave \<longrightarrow> fst (handleSubmit_begin s) = submit_start s) \<and>
   (snd (handleSubmit_begin s) \<noteq> AwaitingSave \<longrightarrow>
      snd (handleSubmit_begin s) = NoSubmission \<and> success (fst (handleSubmit_begin s)) = [] \<and>
      uploadProgress (fst (handleSubmit_begin s)) = 0) \<and>
   (snd (handleSubmit_loaded outcome s) \<noteq> AwaitingRefetch \<longrightarrow>
      snd (handleSubmit_loaded outcome s) = NoSubmission \<and>
      success (fst (handleSubmit_loaded outcome s)) = success s \<and>
      uploadProgress (fst (handleSubmit_loaded outcome s)) = 0) \<and>
   error (handleSubmit_refetched outcome2 s) = error s \<and>
   success (handleSubmit_refetched outcome2 s) = ''Your profile has been updated successfully.'' \<and>
   uploadProgress (handleSubmit_refetched outcome2 s) = 0 \<and>
   handleSubmit env (s\<lparr>error := old_error, success := old_success\<rparr>) = handleSubmit env s \<and>
   (error (handleSubmit env s) = [] \<or> success (handleSubmit env s) = []) \<and>
   uploadProgress (handleSubmit env s) = 0"
proof -
  have flight: "success s = [] \<and>
      (error s = [] \<or> error s = ''Please upload a PDF or DOC file only.'')"
    if "reachable s sub \<and> sub \<noteq> NoSubmission"
    using reachable_messages [of s sub] that by (simp add: messages_in_flight_def)
  have start: "error (submit_start s) = [] \<and> success (submit_start s) = [] \<and>
      uploadProgress (submit_start s) = 0"
    by (simp add: submit_start_def)
  have goes: "snd (handleSubmit_begin s) = AwaitingSave \<longrightarrow>
      fst (handleSubmit_begin s) = submit_start s"
    by (simp add: handleSubmit_begin_def split: sum.splits)
  have stops: "snd (handleSubmit_begin s) \<noteq> AwaitingSave \<longrightarrow>
      snd (handleSubmit_begin s) = NoSubmission \<and> success (fst (handleSubmit_begin s)) = [] \<and>
      uploadProgress (fst (handleSubmit_begin s)) = 0"
    using handleSubmit_begin_cases [of s] by auto
  have fails: "snd (handleSubmit_loaded outcome s) \<noteq> AwaitingRefetch \<longrightarrow>
      snd (handleSubmit_loaded outcome s) = NoSubmission \<and>
      success (fst (handleSubmit_loaded outcome s)) = success s \<and>
      uploadProgress (fst (handleSubmit_loaded outcome s)) = 0"
    using handleSubmit_loaded_cases [of outcome s] by auto
  have finished: "error (handleSubmit_refetched outcome2 s) = error s \<and>
      success (handleSubmit_refetched outcome2 s) =
        ''Your profile has been updated successfully.'' \<and>
      uploadProgress (handleSubmit_refetched outcome2 s) = 0"
    using handleSubmit_refetched_form [of outcome2 s] by auto
  have same: "handleSubmit env (s\<lparr>error := old_error, success := old_success\<rparr>) = handleSubmit env s"
  proof -
    have "submit_start (s\<lparr>error := old_error, success := old_success\<rparr>) = submit_start s"
      by (simp add: submit_start_def)
    moreover
    have "submit_payload (s\<lparr>error := old_error, success := old_success\<rparr>) = submit_payload s"
      by (simp add: submit_payload_def)
    ultimately
    have "handleSubmit_begin (s\<lparr>error := old_error, success := old_success\<rparr>) =
        handleSubmit_begin s"
      by (simp only: handleSubmit_begin_def)
    then show ?thesis by (simp only: handleSubmit_def)
  qed
  have alone: "(error (handleSubmit env s) = [] \<or> success (handleSubmit env s) = []) \<and>
      uploadProgress (handleSubmit env s) = 0"
    using handleSubmit_cases [of env s] by auto
  from flight start goes stops fails finished same alone show ?thesis by blast
qed

text \<open>
  Claim C9 for the loaded volunteer profile: in the submission during which \<open>resume.exe\<close>
  is chosen, the state in flight has an empty success message and the error of the
  rejection; and a submission answered with a 400, started while an old error and an old
  success message are shown and not interrupted, ends with the new error only.
\<close>

theorem submission_messages_witness:
  "reachable sending_rejected AwaitingSave \<and>
   success sending_rejected = [] \<and>
   error sending_rejected = ''Please upload a PDF or DOC file only.'' \<and>
   snd (handleSubmit_begin loaded_volunteer) = AwaitingSave \<and>
   handleSubmit (answered save_400)
      (loaded_volunteer\<lparr>error := ''Please upload a PDF or DOC file only.'',
                        success := ''Your profile has been updated successfully.''\<rparr>) =
     loaded_volunteer\<lparr>error := ''Email already in use''\<rparr>"
proof -
  have alone: "handleSubmit (answered save_400) loaded_volunteer =
      loaded_volunteer\<lparr>error := ''Email already in use''\<rparr>"
    unfolding loaded_volunteer_eq by code_simp
  from submission_messages [where s = sending_rejected and sub = AwaitingSave]
    sending_rejected_reachable
  have flight: "success sending_rejected = []" by simp
  from submission_messages [where s = loaded_volunteer and env = "answered save_400"
      and old_error = "''Please upload a PDF or DOC file only.''"
      and old_success = "''Your profile has been updated successfully.''"]
  have "handleSubmit (answered save_400)
      (loaded_volunteer\<lparr>error := ''Please upload a PDF or DOC file only.'',
                        success := ''Your profile has been updated successfully.''\<rparr>) =
     handleSubmit (answered save_400) loaded_volunteer"
    by simp
  with alone flight sending_rejected_reachable show ?thesis
    by (simp add: sending_rejected_eq sending_volunteer_eq)
qed

text \<open>
  Claim C9 as written lets at most one of the two messages be non-empty when an attempt
  completes. The file inputs stay enabled while a save is in flight: when \<open>resume.exe\<close>
  is chosen during a submission that then succeeds, the attempt completes with the error
  of the rejection and the success message both shown.
\<close>

theorem rejection_in_flight:
  "reachable done_rejected NoSubmission \<and>
   error done_rejected = ''Please upload a PDF or DOC file only.'' \<and>
   success done_rejected = ''Your profile has been updated successfully.''"
proof -
  have "reachable done_rejected NoSubmission"
    unfolding done_rejected_def using saved_rejected_reachable by (rule reachable.submit_refetched)
  then show ?thesis
    by (simp add: done_rejected_eq)
qed

text \<open>
  Claim C6, as the code has it. In every state reachable by the load, edits, file
  selections, removals and the stretches of submissions, a slot whose removal flag is set
  has no selected file, and it has no remote document reference either unless a
  submission is waiting for its follow-up read; outside that wait the flag is then the
  only one of the three that is present. Selecting an accepted file stages it and clears
  any pending removal flag of the slot, and a removal clears the slot's remote reference
  and selected file and sets the flag. (A remote reference and a newly selected file can
  be present together: the file is then a pending replacement.)
\<close>

theorem slots_in_reachable_states:
  "(reachable s sub \<longrightarrow>
      slots_consistent s sub \<and>
      (removeVolunteerDocument s \<and> sub \<noteq> AwaitingRefetch \<longrightarrow>
         active_count (volunteer_active s) = 1) \<and>
      (removeNgoProofDocument s \<and> sub \<noteq> AwaitingRefetch \<longrightarrow>
         active_count (ngo_active s) = 1)) \<and>
   (first_file inp = Some file \<and> isAllowedDocument file \<longrightarrow>
      volunteerDocumentFile (fst (handleVolunteerFileChange inp s)) = Some file \<and>
      \<not> removeVolunteerDocument (fst (handleVolunteerFileChange inp s)) \<and>
      ngoProofFile (fst (handleNgoProofChange inp s)) = Some file \<and>
      \<not> removeNgoProofDocument (fst (handleNgoProofChange inp s))) \<and>
   \<not> truthy (volunteerDocumentUrl (form (handleRemoveVolunteerFile s))) \<and>
   volunteerDocumentFile (handleRemoveVolunteerFile s) = None \<and>
   removeVolunteerDocument (handleRemoveVolunteerFile s) \<and>
   \<not> truthy (ngoProofDocumentUrl (form (handleRemoveNgoProofFile s))) \<and>
   ngoProofFile (handleRemoveNgoProofFile s) = None \<and>
   removeNgoProofDocument (handleRemoveNgoProofFile s)"
proof -
  have inv: "slots_consistent s sub \<and>
      (removeVolunteerDocument s \<and> sub \<noteq> AwaitingRefetch \<longrightarrow>
         active_count (volunteer_active s) = 1) \<and>
      (removeNgoProofDocument s \<and> sub \<noteq> AwaitingRefetch \<longrightarrow>
         active_count (ngo_active s) = 1)"
    if "reachable s sub"
    using reachable_consistent [OF that]
    by (simp add: slots_consistent_def active_count_def volunteer_active_def ngo_active_def)
  have chosen: "volunteerDocumentFile (fst (handleVolunteerFileChange inp s)) = Some file \<and>
      \<not> removeVolunteerDocument (fst (handleVolunteerFileChange inp s)) \<and>
      ngoProofFile (fst (handleNgoProofChange inp s)) = Some file \<and>
      \<not> removeNgoProofDocument (fst (handleNgoProofChange inp s))"
    if "first_file inp = Some file \<and> isAllowedDocument file"
    using that by (simp add: handleVolunteerFileChange_def handleNgoProofChange_def)
  have removed:
    "\<not> truthy (volunteerDocumentUrl (form (handleRemoveVolunteerFile s)))"
    "volunteerDocumentFile (handleRemoveVolunteerFile s) = None"
    "removeVolunteerDocument (handleRemoveVolunteerFile s)"
    "\<not> truthy (ngoProofDocumentUrl (form (handleRemoveNgoProofFile s)))"
    "ngoProofFile (handleRemoveNgoProofFile s) = None"
    "removeNgoProofDocument (handleRemoveNgoProofFile s)"
    by (simp_all add: handleRemoveVolunteerFile_def handleRemoveNgoProofFile_def)
  from inv chosen removed show ?thesis by blast
qed

lemma removed_volunteer_reachable:
  "reachable (handleRemoveVolunteerFile loaded_volunteer) NoSubmission"
proof -
  have "volunteer_remove_shown loaded_volunteer"
    by (simp add: volunteer_remove_shown_def loaded_volunteer_section)
       (simp add: loaded_volunteer_eq)
  with loaded_volunteer_reachable show ?thesis by (rule reachable.volunteer_remove)
qed

text \<open>
  Claim C6 for the loaded volunteer profile after a removal (only the flag is present),
  and after \<open>resume.pdf\<close> is then selected (only the file is present).
\<close>

theorem slots_in_reachable_states_witness:
  "reachable (handleRemoveVolunteerFile loaded_volunteer) NoSubmission \<and>
   removeVolunteerDocument (handleRemoveVolunteerFile loaded_volunteer) \<and>
   volunteer_active (handleRemoveVolunteerFile loaded_volunteer) = [False, False, True] \<and>
   first_file (choose_file resume_pdf) = Some resume_pdf \<and> isAllowedDocument resume_pdf \<and>
   volunteer_active
     (fst (handleVolunteerFileChange (choose_file resume_pdf)
        (handleRemoveVolunteerFile loaded_volunteer))) = [False, True, False]"
proof -
  have f: "first_file (choose_file resume_pdf) = Some resume_pdf"
    by (simp add: first_file_def choose_file_def)
  have ok: "isAllowedDocument resume_pdf"
    by (simp add: isAllowedDocument_def allowedMimeTypes_def resume_pdf_def)
  from slots_in_reachable_states [of "handleRemoveVolunteerFile loaded_volunteer" NoSubmission
      "choose_file resume_pdf" resume_pdf] removed_volunteer_reachable f ok
  show ?thesis
    by (simp add: volunteer_active_def active_count_def slots_consistent_def
        handleVolunteerFileChange_def handleRemoveVolunteerFile_def)
qed

text \<open>
  Claim C6 as written allows at most one of the three in a slot. After the volunteer
  profile with its document \<open>/uploads/cv.pdf\<close> is loaded and \<open>resume.pdf\<close> is selected
  to replace it, the slot has both the remote reference and the selected file.
\<close>

theorem replacement_pending:
  "reachable (fst (handleVolunteerFileChange (choose_file resume_pdf) loaded_volunteer))
     NoSubmission \<and>
   volunteer_active (fst (handleVolunteerFileChange (choose_file resume_pdf) loaded_volunteer)) =
     [True, True, False] \<and>
   active_count
     (volunteer_active (fst (handleVolunteerFileChange (choose_file resume_pdf) loaded_volunteer)))
     = 2"
proof -
  have r: "reachable (fst (handleVolunteerFileChange (choose_file resume_pdf) loaded_volunteer))
      NoSubmission"
    using loaded_volunteer_reachable loaded_volunteer_section by (rule reachable.volunteer_file)
  have st: "fst (handleVolunteerFileChange (choose_file resume_pdf) loaded_volunteer) =
      loaded_volunteer\<lparr>volunteerDocumentFile := Some resume_pdf\<rparr>"
    by (simp add: handleVolunteerFileChange_def first_file_def choose_file_def
        isAllowedDocument_def allowedMimeTypes_def resume_pdf_def loaded_volunteer_eq)
  have a: "volunteer_active (loaded_volunteer\<lparr>volunteerDocumentFile := Some resume_pdf\<rparr>) =
      [True, True, False]"
    by (simp add: volunteer_active_def loaded_volunteer_eq)
  from r show ?thesis
    unfolding st a by (simp add: active_count_def)
qed

lemma sending_removal_eq:
  "handleSubmit_begin (handleRemoveVolunteerFile loaded_volunteer) =
     (loaded_volunteer\<lparr>form := (form loaded_volunteer)\<lparr>volunteerDocumentUrl := JStr []\<rparr>,
        removeVolunteerDocument := True, saving := True\<rparr>, AwaitingSave)"
  unfolding loaded_volunteer_eq by code_simp

lemma sending_removal_reachable: "reachable sending_removal AwaitingSave"
proof -
  have "\<not> loading (handleRemoveVolunteerFile loaded_volunteer)"
    "\<not> saving (handleRemoveVolunteerFile loaded_volunteer)"
    by (simp_all add: handleRemoveVolunteerFile_def loaded_volunteer_eq)
  with removed_volunteer_reachable
  have "reachable (fst (handleSubmit_begin (handleRemoveVolunteerFile loaded_volunteer)))
      (snd (handleSubmit_begin (handleRemoveVolunteerFile loaded_volunteer)))"
    by (rule reachable.submit_begin)
  then show ?thesis
    by (simp add: sending_removal_def sending_removal_eq)
qed

lemma saved_removal_eq:
  "handleSubmit_loaded (XhrLoad save_200_echo) sending_removal =
     (loaded_volunteer
        \<lparr>form := defaultForm\<lparr>volunteerDocumentUrl := JStr ''/uploads/cv.pdf''\<rparr>,
         removeVolunteerDocument := True, saving := True\<rparr>, AwaitingRefetch)"
  unfolding sending_removal_def sending_removal_eq
  unfolding loaded_volunteer_eq by code_simp

text \<open>
  The wait for the follow-up read is a second place where a slot holds two of the three:
  after a removal, a submission answered with a profile that still names the document
  leaves the removal flag set next to the remote reference until the read has settled.
\<close>

theorem removal_awaiting_refetch:
  "reachable saved_removal AwaitingRefetch \<and>
   volunteer_active saved_removal = [True, False, True] \<and>
   active_count (volunteer_active saved_removal) = 2"
proof -
  have r: "reachable saved_removal AwaitingRefetch"
    using reachable.submit_loaded [OF sending_removal_reachable, of "XhrLoad save_200_echo"]
    by (simp add: saved_removal_def saved_removal_eq)
  have st: "saved_removal = loaded_volunteer
        \<lparr>form := defaultForm\<lparr>volunteerDocumentUrl := JStr ''/uploads/cv.pdf''\<rparr>,
         removeVolunteerDocument := True, saving := True\<rparr>"
    by (simp add: saved_removal_def saved_removal_eq)
  have a: "volunteer_active saved_removal = [True, False, True]"
    unfolding st by (simp add: volunteer_active_def loaded_volunteer_eq defaultForm_def)
  from r a show ?thesis
    by (simp add: active_count_def)
qed

end
